theory Spec2Isabelle
  imports Complex_Main
begin

section \<open>JavaScript values\<close>

text \<open>
  JavaScript numbers are modelled as reals. The one place where the program itself
  manufactures a non-number is a field read outside a grid column, which yields
  \<open>undefined\<close> and then \<open>NaN\<close> in the energy arithmetic; energy is therefore a
  \<open>jsnum\<close>. Every comparison with \<open>NaN\<close> is false.
\<close>

datatype jsnum = Num real | NaN

datatype js_error = TypeError

text \<open>An optional property of an options object: absent, \<open>NaN\<close>, or a number.\<close>

datatype jsval = Undefined | NaNval | Val real

fun jsnum_add :: "jsnum \<Rightarrow> jsnum \<Rightarrow> jsnum" where
  "jsnum_add (Num a) (Num b) = Num (a + b)"
| "jsnum_add _ _ = NaN"

fun jsnum_sub :: "jsnum \<Rightarrow> jsnum \<Rightarrow> jsnum" where
  "jsnum_sub (Num a) (Num b) = Num (a - b)"
| "jsnum_sub _ _ = NaN"

fun jsnum_mul :: "jsnum \<Rightarrow> jsnum \<Rightarrow> jsnum" where
  "jsnum_mul (Num a) (Num b) = Num (a * b)"
| "jsnum_mul _ _ = NaN"

fun jsnum_le :: "jsnum \<Rightarrow> real \<Rightarrow> bool" where
  "jsnum_le (Num a) r = (a \<le> r)"
| "jsnum_le NaN r = False"

fun jsnum_lt :: "jsnum \<Rightarrow> real \<Rightarrow> bool" where
  "jsnum_lt (Num a) r = (a < r)"
| "jsnum_lt NaN r = False"

text \<open>\<open>undefined\<close> in arithmetic position converts to \<open>NaN\<close>.\<close>

fun ToNumber :: "real option \<Rightarrow> jsnum" where
  "ToNumber None = NaN"
| "ToNumber (Some r) = Num r"

text \<open>\<open>v || d\<close> on an optional number: \<open>undefined\<close>, \<open>NaN\<close> and \<open>0\<close> are falsy.\<close>

fun falsy :: "jsval \<Rightarrow> bool" where
  "falsy Undefined = True"
| "falsy NaNval = True"
| "falsy (Val r) = (r = 0)"

fun js_or :: "jsval \<Rightarrow> real \<Rightarrow> real" where
  "js_or (Val r) d = (if r = 0 then d else r)"
| "js_or _ d = d"

text \<open>The remainder operator \<open>%\<close>: the quotient is truncated towards zero.\<close>

definition js_rem :: "real \<Rightarrow> real \<Rightarrow> real" where
  "js_rem a n =
     (let q = a / n;
          t = (if 0 \<le> q then \<lfloor>q\<rfloor> else \<lceil>q\<rceil>)
      in a - n * of_int t)"

section \<open>Randomness\<close>

text \<open>
  \<open>Math.random()\<close> is a tape of draws read at a moving position: every function
  that draws takes the tape and the position and returns the new position. The
  language guarantees \<open>0 \<le> r < 1\<close> for each draw.
\<close>

type_synonym tape = "nat \<Rightarrow> real"

definition Math_random :: "tape \<Rightarrow> nat \<Rightarrow> real \<times> nat" where
  "Math_random rnd k = (rnd k, Suc k)"

definition unit_draws :: "tape \<Rightarrow> bool" where
  "unit_draws rnd \<longleftrightarrow> (\<forall>n. 0 \<le> rnd n \<and> rnd n < 1)"

section \<open>Bacterium\<close>

datatype color = Css string | Hsl real real real

record bacterium =
  b_id :: real
  b_x :: real
  b_y :: real
  b_size :: real
  b_speed :: real
  b_metabolism :: real
  b_resistance :: real
  b_lifespan :: real
  b_mutationRate :: real
  b_age :: nat
  b_energy :: jsnum
  b_alive :: bool
  b_reproductionCooldown :: nat
  b_color :: color
  b_vx :: real
  b_vy :: real

record bacterium_options =
  o_x :: jsval
  o_y :: jsval
  o_size :: jsval
  o_speed :: jsval
  o_metabolism :: jsval
  o_resistance :: jsval
  o_lifespan :: jsval
  o_mutationRate :: jsval
  o_color :: "string option"

text \<open>
  The environment object handed to a bacterium: a copy of the environment's scalar
  fields with \<open>nutrients\<close> and \<open>toxicity\<close> replaced by the values sampled at the
  bacterium's position (\<open>None\<close> when the sample was \<open>undefined\<close>).
\<close>

record local_environment =
  le_width :: real
  le_height :: real
  le_temperature :: real
  le_pH :: real
  le_nutrients :: "real option"
  le_toxicity :: "real option"

definition calculateColor :: "real \<Rightarrow> real \<Rightarrow> real \<Rightarrow> color" where
  "calculateColor resistance metabolism speed =
     Hsl (js_rem (resistance * 120) 360) (50 + metabolism * 50) (30 + speed * 40)"

definition Bacterium_constructor :: "bacterium_options \<Rightarrow> tape \<Rightarrow> nat \<Rightarrow> bacterium \<times> nat" where
  "Bacterium_constructor opts rnd k =
     (let (r_id, k1) = Math_random rnd k;
          sz = js_or (o_size opts) 5;
          sp = js_or (o_speed opts) 1;
          me = js_or (o_metabolism opts) 1;
          re = js_or (o_resistance opts) 1;
          li = js_or (o_lifespan opts) 100;
          mu = js_or (o_mutationRate opts) (1 / 10);
          co = (case o_color opts of
                  None \<Rightarrow> calculateColor re me sp
                | Some s \<Rightarrow> if s = [] then calculateColor re me sp else Css s);
          (r_vx, k2) = Math_random rnd k1;
          (r_vy, k3) = Math_random rnd k2
      in (\<lparr> b_id = r_id,
            b_x = js_or (o_x opts) 0,
            b_y = js_or (o_y opts) 0,
            b_size = sz, b_speed = sp, b_metabolism = me, b_resistance = re,
            b_lifespan = li, b_mutationRate = mu,
            b_age = 0, b_energy = Num 100, b_alive = True,
            b_reproductionCooldown = 0,
            b_color = co,
            b_vx = (r_vx * 2 - 1) * sp,
            b_vy = (r_vy * 2 - 1) * sp \<rparr>, k3))"

definition calculateTemperatureFactor :: "bacterium \<Rightarrow> real \<Rightarrow> real" where
  "calculateTemperatureFactor b temperature =
     (let optimalTemp = 50;
          deviation = \<bar>temperature - optimalTemp\<bar> / 50;
          resistanceFactor = 1 - b_resistance b * (1 / 2)
      in 1 + deviation * resistanceFactor)"

definition calculatePHFactor :: "bacterium \<Rightarrow> real \<Rightarrow> real" where
  "calculatePHFactor b pH =
     (let optimalPH = 7;
          deviation = \<bar>pH - optimalPH\<bar> / 7;
          resistanceFactor = 1 - b_resistance b * (1 / 2)
      in 1 + deviation * resistanceFactor)"

definition calculateToxicityFactor :: "bacterium \<Rightarrow> jsnum \<Rightarrow> jsnum" where
  "calculateToxicityFactor b toxicity =
     (let resistanceFactor = 1 - b_resistance b * (8 / 10)
      in jsnum_add (Num 1) (jsnum_mul toxicity (Num resistanceFactor)))"

definition absorbNutrients :: "bacterium \<Rightarrow> jsnum \<Rightarrow> jsnum" where
  "absorbNutrients b nutrients =
     (let absorptionRate = b_size b * (1 / 2);
          processingEfficiency = 1 / 2 + b_metabolism b * (1 / 2)
      in jsnum_mul (jsnum_mul nutrients (Num absorptionRate)) (Num processingEfficiency))"

definition move :: "bacterium \<Rightarrow> local_environment \<Rightarrow> tape \<Rightarrow> nat \<Rightarrow> bacterium \<times> nat" where
  "move b env rnd k =
     (let (r, k1) = Math_random rnd k;
          (b1, k3) =
            (if r < 1 / 10
             then (let (rx, k2) = Math_random rnd k1;
                       (ry, k3) = Math_random rnd k2
                   in (b\<lparr> b_vx := (rx * 2 - 1) * b_speed b,
                          b_vy := (ry * 2 - 1) * b_speed b \<rparr>, k3))
             else (b, k1));
          b2 = b1\<lparr> b_x := b_x b1 + b_vx b1, b_y := b_y b1 + b_vy b1 \<rparr>;
          b3 = (if b_x b2 < 0 then b2\<lparr> b_x := 0, b_vx := b_vx b2 * (- 1) \<rparr>
                else if b_x b2 > le_width env
                     then b2\<lparr> b_x := le_width env, b_vx := b_vx b2 * (- 1) \<rparr>
                else b2);
          b4 = (if b_y b3 < 0 then b3\<lparr> b_y := 0, b_vy := b_vy b3 * (- 1) \<rparr>
                else if b_y b3 > le_height env
                     then b3\<lparr> b_y := le_height env, b_vy := b_vy b3 * (- 1) \<rparr>
                else b3)
      in (b4, k3))"

text \<open>
  \<open>Bacterium.update\<close>: the updated bacterium, the returned flag, and the new tape
  position.
\<close>

definition Bacterium_update ::
  "bacterium \<Rightarrow> local_environment \<Rightarrow> tape \<Rightarrow> nat \<Rightarrow> bacterium \<times> bool \<times> nat" where
  "Bacterium_update b env rnd k =
     (if \<not> b_alive b then (b, False, k)
      else
        let b1 = b\<lparr> b_age := b_age b + 1 \<rparr>;
            b2 = (if b_reproductionCooldown b1 > 0
                  then b1\<lparr> b_reproductionCooldown := b_reproductionCooldown b1 - 1 \<rparr>
                  else b1);
            baseConsumption = b_size b2 * b_metabolism b2;
            tempFactor = calculateTemperatureFactor b2 (le_temperature env);
            pHFactor = calculatePHFactor b2 (le_pH env);
            toxicityFactor = calculateToxicityFactor b2 (ToNumber (le_toxicity env));
            energyConsumption =
              jsnum_mul (Num (baseConsumption * tempFactor * pHFactor)) toxicityFactor;
            b3 = b2\<lparr> b_energy := jsnum_sub (b_energy b2) energyConsumption \<rparr>;
            b4 = b3\<lparr> b_energy :=
                       jsnum_add (b_energy b3) (absorbNutrients b3 (ToNumber (le_nutrients env))) \<rparr>
        in if jsnum_le (b_energy b4) 0 \<or> real (b_age b4) \<ge> b_lifespan b4
           then (b4\<lparr> b_alive := False \<rparr>, False, k)
           else (let (b5, k1) = move b4 env rnd k in (b5, True, k1)))"

definition mutateProperty :: "bacterium \<Rightarrow> real \<Rightarrow> tape \<Rightarrow> nat \<Rightarrow> real \<times> nat" where
  "mutateProperty b v rnd k =
     (let (r, k1) = Math_random rnd k
      in if r < b_mutationRate b
         then (let mutationStrength = 2 / 10;
                   (r2, k2) = Math_random rnd k1;
                   change = 1 + (r2 * 2 - 1) * mutationStrength
               in (v * change, k2))
         else (v, k1))"

text \<open>
  \<open>Bacterium.reproduce\<close>: the parent after the call, the child (\<open>None\<close> for
  \<open>null\<close>), and the new tape position. The child's properties are evaluated in the
  order of the object literal, then the constructor runs.
\<close>

definition reproduce ::
  "bacterium \<Rightarrow> local_environment \<Rightarrow> tape \<Rightarrow> nat \<Rightarrow> bacterium \<times> bacterium option \<times> nat" where
  "reproduce b env rnd k =
     (if \<not> b_alive b \<or> b_reproductionCooldown b > 0 \<or> jsnum_lt (b_energy b) 50
      then (b, None, k)
      else
        let b1 = b\<lparr> b_energy := jsnum_mul (b_energy b) (Num (7 / 10)) \<rparr>;
            b2 = b1\<lparr> b_reproductionCooldown := 20 \<rparr>;
            (rx, k1) = Math_random rnd k;
            (ry, k2) = Math_random rnd k1;
            (c_size, k3) = mutateProperty b2 (b_size b2) rnd k2;
            (c_speed, k4) = mutateProperty b2 (b_speed b2) rnd k3;
            (c_metabolism, k5) = mutateProperty b2 (b_metabolism b2) rnd k4;
            (c_resistance, k6) = mutateProperty b2 (b_resistance b2) rnd k5;
            (c_lifespan, k7) = mutateProperty b2 (b_lifespan b2) rnd k6;
            (c_mutationRate, k8) = mutateProperty b2 (b_mutationRate b2) rnd k7;
            childProperties =
              \<lparr> o_x = Val (b_x b2 + (rx * 10 - 5)),
                o_y = Val (b_y b2 + (ry * 10 - 5)),
                o_size = Val c_size, o_speed = Val c_speed,
                o_metabolism = Val c_metabolism, o_resistance = Val c_resistance,
                o_lifespan = Val c_lifespan, o_mutationRate = Val c_mutationRate,
                o_color = None \<rparr>;
            (child, k9) = Bacterium_constructor childProperties rnd k8
        in (b2, Some child, k9))"

section \<open>Environment\<close>

record distribution =
  grid :: "real list list"
  cellWidth :: real
  cellHeight :: real
  gridSize :: nat

record extinction_event =
  ev_generation :: nat
  previousPopulation :: nat
  currentPopulation :: nat

record averageTraits =
  at_size :: "real list"
  at_speed :: "real list"
  at_metabolism :: "real list"
  at_resistance :: "real list"
  at_lifespan :: "real list"
  at_mutationRate :: "real list"

record statistics =
  populationHistory :: "nat list"
  averageTraits :: averageTraits
  extinctionEvents :: "extinction_event list"

record environment =
  width :: real
  height :: real
  temperature :: real
  pH :: real
  nutrients :: real
  toxicity :: real
  antibiotics :: real
  carryingCapacity :: real
  nutrientDistribution :: distribution
  toxicityDistribution :: distribution
  generation :: nat
  statistics :: statistics

text \<open>
  The options of the constructor and the partial parameters of \<open>setParameters\<close>:
  \<open>None\<close> is an absent (\<open>undefined\<close>) property.
\<close>

record environment_options =
  p_width :: "real option"
  p_height :: "real option"
  p_temperature :: "real option"
  p_pH :: "real option"
  p_nutrients :: "real option"
  p_toxicity :: "real option"
  p_antibiotics :: "real option"
  p_carryingCapacity :: "real option"

text \<open>\<open>v || d\<close> and \<open>v !== undefined ? v : d\<close> on an optional number.\<close>

fun or_default :: "real option \<Rightarrow> real \<Rightarrow> real" where
  "or_default None d = d"
| "or_default (Some v) d = (if v = 0 then d else v)"

fun defined_or :: "real option \<Rightarrow> real \<Rightarrow> real" where
  "defined_or None d = d"
| "defined_or (Some v) d = v"

text \<open>One cell of the nutrient grid: two or three draws, depending on the first roll.\<close>

definition nutrient_cell :: "real \<Rightarrow> tape \<Rightarrow> nat \<Rightarrow> real \<times> nat" where
  "nutrient_cell base rnd k =
     (let (r1, k1) = Math_random rnd k;
          v = base * (1 / 2 + r1);
          (r2, k2) = Math_random rnd k1
      in if r2 < 1 / 10 then (v * 2, k2)
         else (let (r3, k3) = Math_random rnd k2
               in if r3 < 1 / 10 then (v * (1 / 2), k3) else (v, k3)))"

definition toxicity_cell :: "real \<Rightarrow> tape \<Rightarrow> nat \<Rightarrow> real \<times> nat" where
  "toxicity_cell base rnd k =
     (let (r1, k1) = Math_random rnd k;
          v = base * (1 / 2 + r1);
          (r2, k2) = Math_random rnd k1
      in if r2 < 5 / 100 then (v * 3, k2) else (v, k2))"

text \<open>The inner loop over \<open>y\<close> and the outer loop over \<open>x\<close>, by the number of rounds left.\<close>

fun generate_column :: "(tape \<Rightarrow> nat \<Rightarrow> real \<times> nat) \<Rightarrow> nat \<Rightarrow> tape \<Rightarrow> nat \<Rightarrow> real list \<times> nat" where
  "generate_column cell 0 rnd k = ([], k)"
| "generate_column cell (Suc n) rnd k =
     (let (v, k1) = cell rnd k;
          (vs, k2) = generate_column cell n rnd k1
      in (v # vs, k2))"

fun generate_grid ::
  "(tape \<Rightarrow> nat \<Rightarrow> real \<times> nat) \<Rightarrow> nat \<Rightarrow> nat \<Rightarrow> tape \<Rightarrow> nat \<Rightarrow> real list list \<times> nat" where
  "generate_grid cell 0 m rnd k = ([], k)"
| "generate_grid cell (Suc n) m rnd k =
     (let (col, k1) = generate_column cell m rnd k;
          (cols, k2) = generate_grid cell n m rnd k1
      in (col # cols, k2))"

definition generateNutrientDistribution :: "environment \<Rightarrow> tape \<Rightarrow> nat \<Rightarrow> distribution \<times> nat" where
  "generateNutrientDistribution e rnd k =
     (let gs = 20;
          cw = width e / real gs;
          ch = height e / real gs;
          (g, k1) = generate_grid (nutrient_cell (nutrients e)) gs gs rnd k
      in (\<lparr> grid = g, cellWidth = cw, cellHeight = ch, gridSize = gs \<rparr>, k1))"

definition generateToxicityDistribution :: "environment \<Rightarrow> tape \<Rightarrow> nat \<Rightarrow> distribution \<times> nat" where
  "generateToxicityDistribution e rnd k =
     (let gs = 20;
          cw = width e / real gs;
          ch = height e / real gs;
          (g, k1) = generate_grid (toxicity_cell (toxicity e)) gs gs rnd k
      in (\<lparr> grid = g, cellWidth = cw, cellHeight = ch, gridSize = gs \<rparr>, k1))"

definition no_distribution :: distribution where
  "no_distribution = \<lparr> grid = [], cellWidth = 0, cellHeight = 0, gridSize = 0 \<rparr>"

definition empty_statistics :: statistics where
  "empty_statistics =
     \<lparr> populationHistory = [],
       averageTraits = \<lparr> at_size = [], at_speed = [], at_metabolism = [],
                         at_resistance = [], at_lifespan = [], at_mutationRate = [] \<rparr>,
       extinctionEvents = [] \<rparr>"

definition Environment_constructor :: "environment_options \<Rightarrow> tape \<Rightarrow> nat \<Rightarrow> environment \<times> nat" where
  "Environment_constructor opts rnd k =
     (let e0 = \<lparr> width = or_default (p_width opts) 800,
                 height = or_default (p_height opts) 600,
                 temperature = defined_or (p_temperature opts) 50,
                 pH = defined_or (p_pH opts) 7,
                 nutrients = defined_or (p_nutrients opts) 5,
                 toxicity = defined_or (p_toxicity opts) 0,
                 antibiotics = defined_or (p_antibiotics opts) 0,
                 carryingCapacity = or_default (p_carryingCapacity opts) 200,
                 nutrientDistribution = no_distribution,
                 toxicityDistribution = no_distribution,
                 generation = 0,
                 statistics = empty_statistics \<rparr>;
          (nd, k1) = generateNutrientDistribution e0 rnd k;
          e1 = e0\<lparr> nutrientDistribution := nd \<rparr>;
          (td, k2) = generateToxicityDistribution e1 rnd k1;
          e2 = e1\<lparr> toxicityDistribution := td \<rparr>
      in (e2, k2))"

text \<open>\<open>push\<close> followed by the conditional \<open>shift\<close> that caps a history.\<close>

definition push_capped :: "'a list \<Rightarrow> 'a \<Rightarrow> 'a list" where
  "push_capped h v = (let h1 = h @ [v] in if length h1 > 1000 then tl h1 else h1)"

text \<open>The sum of a trait over the population, divided by the population size.\<close>

definition average :: "(bacterium \<Rightarrow> real) \<Rightarrow> bacterium list \<Rightarrow> real" where
  "average f bs = sum_list (map f bs) / real (length bs)"

definition updateStatistics :: "environment \<Rightarrow> bacterium list \<Rightarrow> environment" where
  "updateStatistics e bs =
     (let st = statistics e;
          st1 = st\<lparr> populationHistory := push_capped (populationHistory st) (length bs) \<rparr>
      in if length bs > 0
         then (let avg = (\<lambda>f. average f bs);
                   t = averageTraits st1;
                   t1 = t\<lparr> at_size := push_capped (at_size t) (avg b_size) \<rparr>;
                   t2 = t1\<lparr> at_speed := push_capped (at_speed t1) (avg b_speed) \<rparr>;
                   t3 = t2\<lparr> at_metabolism := push_capped (at_metabolism t2) (avg b_metabolism) \<rparr>;
                   t4 = t3\<lparr> at_resistance := push_capped (at_resistance t3) (avg b_resistance) \<rparr>;
                   t5 = t4\<lparr> at_lifespan := push_capped (at_lifespan t4) (avg b_lifespan) \<rparr>;
                   t6 = t5\<lparr> at_mutationRate := push_capped (at_mutationRate t5) (avg b_mutationRate) \<rparr>
               in e\<lparr> statistics := st1\<lparr> averageTraits := t6 \<rparr> \<rparr>)
         else e\<lparr> statistics := st1 \<rparr>)"

text \<open>\<open>Environment.update\<close>.\<close>

definition Environment_update :: "environment \<Rightarrow> bacterium list \<Rightarrow> tape \<Rightarrow> nat \<Rightarrow> environment \<times> nat" where
  "Environment_update e bs rnd k =
     (let e1 = e\<lparr> generation := generation e + 1 \<rparr>;
          e2 = updateStatistics e1 bs;
          (e3, k1) = (if generation e2 mod 100 = 0
                      then (let (nd, k1) = generateNutrientDistribution e2 rnd k
                            in (e2\<lparr> nutrientDistribution := nd \<rparr>, k1))
                      else (e2, k));
          (e4, k2) = (if generation e3 mod 150 = 0
                      then (let (td, k2) = generateToxicityDistribution e3 rnd k1
                            in (e3\<lparr> toxicityDistribution := td \<rparr>, k2))
                      else (e3, k1));
          currentPop = length bs;
          h = populationHistory (statistics e4);
          previousPop = (if length h > 0 then last h else currentPop)
      in if previousPop > 10 \<and> real currentPop \<le> real previousPop * (1 / 2)
         then (e4\<lparr> statistics := (statistics e4)\<lparr> extinctionEvents :=
                     extinctionEvents (statistics e4) @
                       [\<lparr> ev_generation = generation e4,
                          previousPopulation = previousPop,
                          currentPopulation = currentPop \<rparr>] \<rparr> \<rparr>, k2)
         else (e4, k2))"

text \<open>
  The grid coordinate \<open>Math.min(Math.floor(x / cellWidth), gridSize - 1)\<close>. Division
  by a zero cell width gives \<open>Infinity\<close> (capped by \<open>Math.min\<close>), \<open>-Infinity\<close> or
  \<open>NaN\<close>; the last two are no array index, which is \<open>None\<close> here.
\<close>

definition grid_coordinate :: "real \<Rightarrow> real \<Rightarrow> nat \<Rightarrow> int option" where
  "grid_coordinate x cw gs =
     (if cw = 0 then (if x > 0 then Some (int gs - 1) else None)
      else Some (min \<lfloor>x / cw\<rfloor> (int gs - 1)))"

text \<open>Reading an array at a computed index: \<open>None\<close> is \<open>undefined\<close>.\<close>

definition array_get :: "'a list \<Rightarrow> int option \<Rightarrow> 'a option" where
  "array_get xs i =
     (case i of
        None \<Rightarrow> None
      | Some j \<Rightarrow> if 0 \<le> j \<and> j < int (length xs) then Some (xs ! nat j) else None)"

text \<open>
  \<open>grid[gridX][gridY]\<close>: indexing the \<open>undefined\<close> column throws a \<open>TypeError\<close>; a
  missing cell of an existing column is \<open>undefined\<close>.
\<close>

definition sample :: "distribution \<Rightarrow> real \<Rightarrow> real \<Rightarrow> js_error + real option" where
  "sample d x y =
     (let gridX = grid_coordinate x (cellWidth d) (gridSize d);
          gridY = grid_coordinate y (cellHeight d) (gridSize d)
      in case array_get (grid d) gridX of
           None \<Rightarrow> Inl TypeError
         | Some col \<Rightarrow> Inr (array_get col gridY))"

definition getNutrientAt :: "environment \<Rightarrow> real \<Rightarrow> real \<Rightarrow> js_error + real option" where
  "getNutrientAt e x y = sample (nutrientDistribution e) x y"

definition getToxicityAt :: "environment \<Rightarrow> real \<Rightarrow> real \<Rightarrow> js_error + real option" where
  "getToxicityAt e x y = sample (toxicityDistribution e) x y"

text \<open>
  \<open>Environment.setParameters\<close>, statement by statement: the fields are regenerated
  where the source regenerates them, before width and height are stored.
\<close>

definition setParameters :: "environment \<Rightarrow> environment_options \<Rightarrow> tape \<Rightarrow> nat \<Rightarrow> environment \<times> nat" where
  "setParameters e params rnd k =
     (let e1 = (case p_temperature params of None \<Rightarrow> e | Some v \<Rightarrow> e\<lparr> temperature := v \<rparr>);
          e2 = (case p_pH params of None \<Rightarrow> e1 | Some v \<Rightarrow> e1\<lparr> pH := v \<rparr>);
          (e3, k1) = (case p_nutrients params of
                        None \<Rightarrow> (e2, k)
                      | Some v \<Rightarrow>
                          (let ea = e2\<lparr> nutrients := v \<rparr>;
                               (nd, k1) = generateNutrientDistribution ea rnd k
                           in (ea\<lparr> nutrientDistribution := nd \<rparr>, k1)));
          (e4, k2) = (case p_toxicity params of
                        None \<Rightarrow> (e3, k1)
                      | Some v \<Rightarrow>
                          (let ea = e3\<lparr> toxicity := v \<rparr>;
                               (td, k2) = generateToxicityDistribution ea rnd k1
                           in (ea\<lparr> toxicityDistribution := td \<rparr>, k2)));
          e5 = (case p_antibiotics params of None \<Rightarrow> e4 | Some v \<Rightarrow> e4\<lparr> antibiotics := v \<rparr>);
          e6 = (case p_carryingCapacity params of None \<Rightarrow> e5 | Some v \<Rightarrow> e5\<lparr> carryingCapacity := v \<rparr>);
          e7 = (case p_width params of None \<Rightarrow> e6 | Some v \<Rightarrow> e6\<lparr> width := v \<rparr>);
          e8 = (case p_height params of None \<Rightarrow> e7 | Some v \<Rightarrow> e7\<lparr> height := v \<rparr>)
      in (e8, k2))"

text \<open>
  The \<open>currentParameters\<close> object of \<open>Environment.getStatistics\<close>, read as constructor
  options: it has the six scalar parameters and no \<open>width\<close> or \<open>height\<close> property.
\<close>

definition currentParameters :: "environment \<Rightarrow> environment_options" where
  "currentParameters e =
     \<lparr> p_width = None, p_height = None,
       p_temperature = Some (temperature e),
       p_pH = Some (pH e),
       p_nutrients = Some (nutrients e),
       p_toxicity = Some (toxicity e),
       p_antibiotics = Some (antibiotics e),
       p_carryingCapacity = Some (carryingCapacity e) \<rparr>"

section \<open>Simulation\<close>

record simulation =
  environment :: environment
  bacteria :: "bacterium list"
  initialBacteriaParams :: bacterium_options
  initialPopulation :: nat
  running :: bool
  sim_speed :: real

text \<open>
  \<open>seed || baseline + (Math.random() * spread - spread / 2)\<close>: the draw is made only
  when the seed is falsy.
\<close>

definition seed_or_random :: "jsval \<Rightarrow> real \<Rightarrow> real \<Rightarrow> tape \<Rightarrow> nat \<Rightarrow> real \<times> nat" where
  "seed_or_random seed baseline spread rnd k =
     (if falsy seed
      then (let (r, k1) = Math_random rnd k in (baseline + (r * spread - spread / 2), k1))
      else (js_or seed 0, k))"

definition new_seeded_bacterium :: "simulation \<Rightarrow> tape \<Rightarrow> nat \<Rightarrow> bacterium \<times> nat" where
  "new_seeded_bacterium s rnd k =
     (let (rx, k1) = Math_random rnd k;
          (ry, k2) = Math_random rnd k1;
          ps = initialBacteriaParams s;
          (v_size, k3) = seed_or_random (o_size ps) 5 3 rnd k2;
          (v_speed, k4) = seed_or_random (o_speed ps) 1 (6 / 10) rnd k3;
          (v_metabolism, k5) = seed_or_random (o_metabolism ps) 1 (4 / 10) rnd k4;
          (v_resistance, k6) = seed_or_random (o_resistance ps) 1 (4 / 10) rnd k5;
          (v_lifespan, k7) = seed_or_random (o_lifespan ps) 100 40 rnd k6;
          (v_mutationRate, k8) = seed_or_random (o_mutationRate ps) (1 / 10) (4 / 100) rnd k7
      in Bacterium_constructor
           \<lparr> o_x = Val (rx * width (environment s)),
             o_y = Val (ry * height (environment s)),
             o_size = Val v_size, o_speed = Val v_speed,
             o_metabolism = Val v_metabolism, o_resistance = Val v_resistance,
             o_lifespan = Val v_lifespan, o_mutationRate = Val v_mutationRate,
             o_color = None \<rparr> rnd k8)"

fun populate :: "simulation \<Rightarrow> nat \<Rightarrow> tape \<Rightarrow> nat \<Rightarrow> bacterium list \<times> nat" where
  "populate s 0 rnd k = ([], k)"
| "populate s (Suc n) rnd k =
     (let (b, k1) = new_seeded_bacterium s rnd k;
          (bs, k2) = populate s n rnd k1
      in (b # bs, k2))"

definition initializePopulation :: "simulation \<Rightarrow> tape \<Rightarrow> nat \<Rightarrow> simulation \<times> nat" where
  "initializePopulation s rnd k =
     (let (bs, k1) = populate s (initialPopulation s) rnd k
      in (s\<lparr> bacteria := bs \<rparr>, k1))"

definition reset :: "simulation \<Rightarrow> tape \<Rightarrow> nat \<Rightarrow> simulation \<times> nat" where
  "reset s rnd k =
     (let currentEnvParams = currentParameters (environment s);
          (e, k1) = Environment_constructor
                      (currentEnvParams\<lparr> p_width := p_width currentEnvParams,
                                          p_height := p_height currentEnvParams \<rparr>) rnd k
      in initializePopulation (s\<lparr> environment := e \<rparr>) rnd k1)"

text \<open>
  The \<open>localEnvironment\<close> object built for one bacterium: the environment's fields
  with the two samples at the bacterium's position; a sample that throws ends the
  step.
\<close>

definition local_environment_at :: "simulation \<Rightarrow> bacterium \<Rightarrow> js_error + local_environment" where
  "local_environment_at s b =
     (case getNutrientAt (environment s) (b_x b) (b_y b) of
        Inl err \<Rightarrow> Inl err
      | Inr nut \<Rightarrow>
         (case getToxicityAt (environment s) (b_x b) (b_y b) of
            Inl err \<Rightarrow> Inl err
          | Inr tox \<Rightarrow>
              Inr \<lparr> le_width = width (environment s),
                    le_height = height (environment s),
                    le_temperature = temperature (environment s),
                    le_pH = pH (environment s),
                    le_nutrients = nut, le_toxicity = tox \<rparr>))"

text \<open>
  The body of the loop of \<open>Simulation.update\<close> for one bacterium: what it appends to
  \<open>newBacteria\<close>. The parent is appended as the object it is after \<open>reproduce\<close> has
  run on it, since the array holds a reference.
\<close>

definition update_one ::
  "simulation \<Rightarrow> bacterium \<Rightarrow> tape \<Rightarrow> nat \<Rightarrow> js_error + (bacterium list \<times> nat)" where
  "update_one s b rnd k =
     (case local_environment_at s b of
        Inl err \<Rightarrow> Inl err
      | Inr localEnvironment \<Rightarrow>
         (let (b1, alive, k1) = Bacterium_update b localEnvironment rnd k
          in if alive
             then (if real (length (bacteria s)) < carryingCapacity (environment s)
                   then (let (b2, child, k2) = reproduce b1 localEnvironment rnd k1
                         in case child of
                              None \<Rightarrow> Inr ([b2], k2)
                            | Some c \<Rightarrow> Inr ([b2, c], k2))
                   else Inr ([b1], k1))
             else Inr ([], k1)))"

fun update_loop ::
  "simulation \<Rightarrow> bacterium list \<Rightarrow> bacterium list \<Rightarrow> tape \<Rightarrow> nat
     \<Rightarrow> js_error + (bacterium list \<times> nat)" where
  "update_loop s [] newBacteria rnd k = Inr (newBacteria, k)"
| "update_loop s (b # rest) newBacteria rnd k =
     (case update_one s b rnd k of
        Inl err \<Rightarrow> Inl err
      | Inr (pushed, k1) \<Rightarrow> update_loop s rest (newBacteria @ pushed) rnd k1)"

text \<open>
  \<open>Simulation.update\<close>. A thrown error leaves the call without a state (the
  half-updated objects are not modelled).
\<close>

definition Simulation_update :: "simulation \<Rightarrow> tape \<Rightarrow> nat \<Rightarrow> js_error + (simulation \<times> nat)" where
  "Simulation_update s rnd k =
     (if \<not> running s then Inr (s, k)
      else
        let (e, k1) = Environment_update (environment s) (bacteria s) rnd k;
            s1 = s\<lparr> environment := e \<rparr>
        in case update_loop s1 (bacteria s1) [] rnd k1 of
             Inl err \<Rightarrow> Inl err
           | Inr (newBacteria, k2) \<Rightarrow> Inr (s1\<lparr> bacteria := newBacteria \<rparr>, k2))"

section \<open>Properties stated over runs\<close>

text \<open>A sequence of \<open>Environment.update\<close> calls, one per population snapshot.\<close>

fun run_updates :: "environment \<Rightarrow> bacterium list list \<Rightarrow> tape \<Rightarrow> nat \<Rightarrow> environment \<times> nat" where
  "run_updates e [] rnd k = (e, k)"
| "run_updates e (bs # rest) rnd k =
     (let (e1, k1) = Environment_update e bs rnd k in run_updates e1 rest rnd k1)"

text \<open>The last \<open>n\<close> entries of a sequence, in order.\<close>

definition last_n :: "nat \<Rightarrow> 'a list \<Rightarrow> 'a list" where
  "last_n n xs = drop (length xs - n) xs"

text \<open>No history of the environment is longer than 1000 entries.\<close>

definition histories_capped :: "environment \<Rightarrow> bool" where
  "histories_capped e \<longleftrightarrow>
     length (populationHistory (statistics e)) \<le> 1000
   \<and> length (at_size (averageTraits (statistics e))) \<le> 1000
   \<and> length (at_speed (averageTraits (statistics e))) \<le> 1000
   \<and> length (at_metabolism (averageTraits (statistics e))) \<le> 1000
   \<and> length (at_resistance (averageTraits (statistics e))) \<le> 1000
   \<and> length (at_lifespan (averageTraits (statistics e))) \<le> 1000
   \<and> length (at_mutationRate (averageTraits (statistics e))) \<le> 1000"

text \<open>
  Every trait whose seed is falsy lies in the range of its randomized baseline:
  baseline minus half the spread up to, and excluding, baseline plus half the spread.
\<close>

definition randomized_where_falsy :: "bacterium_options \<Rightarrow> bacterium \<Rightarrow> bool" where
  "randomized_where_falsy ps b \<longleftrightarrow>
     (falsy (o_size ps) \<longrightarrow> 7 / 2 \<le> b_size b \<and> b_size b < 13 / 2)
   \<and> (falsy (o_speed ps) \<longrightarrow> 7 / 10 \<le> b_speed b \<and> b_speed b < 13 / 10)
   \<and> (falsy (o_metabolism ps) \<longrightarrow> 8 / 10 \<le> b_metabolism b \<and> b_metabolism b < 12 / 10)
   \<and> (falsy (o_resistance ps) \<longrightarrow> 8 / 10 \<le> b_resistance b \<and> b_resistance b < 12 / 10)
   \<and> (falsy (o_lifespan ps) \<longrightarrow> 80 \<le> b_lifespan b \<and> b_lifespan b < 120)
   \<and> (falsy (o_mutationRate ps) \<longrightarrow> 8 / 100 \<le> b_mutationRate b \<and> b_mutationRate b < 12 / 100)"

section \<open>Example values\<close>

text \<open>
  A bacterium with the traits of the \<open>balanced\<close> preset of \<open>utils.js\<close> and the state
  the constructor gives, at rest at (100, 100).
\<close>

definition balanced :: bacterium where
  "balanced = \<lparr> b_id = 0, b_x = 100, b_y = 100, b_size = 5, b_speed = 1, b_metabolism = 1,
       b_resistance = 1, b_lifespan = 100, b_mutationRate = 1 / 10, b_age = 0,
       b_energy = Num 100, b_alive = True, b_reproductionCooldown = 0,
       b_color = Hsl 120 100 70, b_vx = 0, b_vy = 0 \<rparr>"

text \<open>
  A balanced bacterium about to cross the right and the top boundary, and a tape whose
  first draw makes \<open>move\<close> redraw the velocity.
\<close>

definition mover :: bacterium where
  "mover = balanced\<lparr> b_x := 799, b_y := 1, b_vx := 3, b_vy := - 2 \<rparr>"

definition redraw_tape :: tape where
  "redraw_tape n = (if n = 0 then 0 else 3 / 4)"

text \<open>
  An environment with the parameters of the \<open>neutral\<close> preset, a uniform nutrient
  grid of 5 and no toxicity; and what a bacterium is handed from it.
\<close>

definition neutral_environment :: environment where
  "neutral_environment =
     \<lparr> width = 800, height = 600, temperature = 50, pH = 7, nutrients = 5, toxicity = 0,
       antibiotics = 0, carryingCapacity = 200,
       nutrientDistribution =
         \<lparr> grid = replicate 20 (replicate 20 5), cellWidth = 40, cellHeight = 30, gridSize = 20 \<rparr>,
       toxicityDistribution =
         \<lparr> grid = replicate 20 (replicate 20 0), cellWidth = 40, cellHeight = 30, gridSize = 20 \<rparr>,
       generation = 0,
       statistics = empty_statistics \<rparr>"

definition neutral_local :: local_environment where
  "neutral_local = \<lparr> le_width = 800, le_height = 600, le_temperature = 50, le_pH = 7,
       le_nutrients = Some 5, le_toxicity = Some 0 \<rparr>"

text \<open>
  A simulation samples as the neutral environment when the fields that decide what a
  bacterium is handed are those of the neutral environment.
\<close>

definition samples_as_neutral :: "simulation \<Rightarrow> bool" where
  "samples_as_neutral s \<longleftrightarrow>
     nutrientDistribution (environment s) = nutrientDistribution neutral_environment
   \<and> toxicityDistribution (environment s) = toxicityDistribution neutral_environment
   \<and> width (environment s) = 800 \<and> height (environment s) = 600
   \<and> temperature (environment s) = 50 \<and> pH (environment s) = 7"

text \<open>The neutral environment with a full population history.\<close>

definition full_history_environment :: environment where
  "full_history_environment =
     neutral_environment\<lparr> statistics := empty_statistics\<lparr> populationHistory := replicate 1000 7 \<rparr> \<rparr>"

text \<open>An options object with no property, for the environment and for a bacterium.\<close>

definition no_options :: environment_options where
  "no_options = \<lparr> p_width = None, p_height = None, p_temperature = None, p_pH = None,
       p_nutrients = None, p_toxicity = None, p_antibiotics = None,
       p_carryingCapacity = None \<rparr>"

definition no_seed :: bacterium_options where
  "no_seed = \<lparr> o_x = Undefined, o_y = Undefined, o_size = Undefined, o_speed = Undefined,
       o_metabolism = Undefined, o_resistance = Undefined, o_lifespan = Undefined,
       o_mutationRate = Undefined, o_color = None \<rparr>"

text \<open>A simulation whose seed gives size 0 and speed \<open>NaN\<close>, for two bacteria.\<close>

definition zero_seeded :: simulation where
  "zero_seeded = \<lparr> environment = neutral_environment, bacteria = [],
       initialBacteriaParams = no_seed\<lparr> o_size := Val 0, o_speed := NaNval \<rparr>,
       initialPopulation = 2, running = False, sim_speed = 1 \<rparr>"

text \<open>
  A running simulation of three balanced bacteria under a carrying capacity of 4, and
  the same under a carrying capacity of 3.
\<close>

definition near_capacity :: simulation where
  "near_capacity =
     \<lparr> environment = neutral_environment\<lparr> carryingCapacity := 4 \<rparr>,
       bacteria = [balanced, balanced\<lparr> b_x := 300 \<rparr>, balanced\<lparr> b_x := 500 \<rparr>],
       initialBacteriaParams = no_seed, initialPopulation = 3, running = True, sim_speed = 1 \<rparr>"

definition at_capacity :: simulation where
  "at_capacity = near_capacity\<lparr> environment := neutral_environment\<lparr> carryingCapacity := 3 \<rparr> \<rparr>"

section \<open>Basic facts\<close>

lemma Math_random_simp [simp]: "Math_random rnd k = (rnd k, Suc k)"
  by (simp add: Math_random_def)

lemma move_frame:
  "b_energy (fst (move b env rnd k)) = b_energy b"
  "b_alive (fst (move b env rnd k)) = b_alive b"
  "b_age (fst (move b env rnd k)) = b_age b"
  "b_reproductionCooldown (fst (move b env rnd k)) = b_reproductionCooldown b"
  by (simp_all add: move_def Let_def split: prod.splits if_splits)

text \<open>
  \<open>move\<close> written out: the velocity is redrawn when the first draw is below 0.1, the
  position advances by it, and a coordinate that leaves the extent is put on the
  boundary with its velocity component negated.
\<close>

lemma move_explicit:
  "move b env rnd k =
     (let vx0 = (if rnd k < 1 / 10 then (rnd (k + 1) * 2 - 1) * b_speed b else b_vx b);
          vy0 = (if rnd k < 1 / 10 then (rnd (k + 2) * 2 - 1) * b_speed b else b_vy b);
          x1 = b_x b + vx0;
          y1 = b_y b + vy0
      in (b\<lparr> b_x := (if x1 < 0 then 0 else if x1 > le_width env then le_width env else x1),
             b_y := (if y1 < 0 then 0 else if y1 > le_height env then le_height env else y1),
             b_vx := (if x1 < 0 \<or> x1 > le_width env then - vx0 else vx0),
             b_vy := (if y1 < 0 \<or> y1 > le_height env then - vy0 else vy0) \<rparr>,
          if rnd k < 1 / 10 then k + 3 else k + 1))"
  by (cases b) (simp add: move_def Let_def)

lemma cooldown_tick:
  "(if b_reproductionCooldown b > 0
    then b\<lparr> b_reproductionCooldown := b_reproductionCooldown b - 1 \<rparr> else b)
   = b\<lparr> b_reproductionCooldown := b_reproductionCooldown b - 1 \<rparr>"
  by (cases b) simp

lemma constructor_fields:
  "b_x (fst (Bacterium_constructor opts rnd k)) = js_or (o_x opts) 0"
  "b_y (fst (Bacterium_constructor opts rnd k)) = js_or (o_y opts) 0"
  "b_size (fst (Bacterium_constructor opts rnd k)) = js_or (o_size opts) 5"
  "b_speed (fst (Bacterium_constructor opts rnd k)) = js_or (o_speed opts) 1"
  "b_metabolism (fst (Bacterium_constructor opts rnd k)) = js_or (o_metabolism opts) 1"
  "b_resistance (fst (Bacterium_constructor opts rnd k)) = js_or (o_resistance opts) 1"
  "b_lifespan (fst (Bacterium_constructor opts rnd k)) = js_or (o_lifespan opts) 100"
  "b_mutationRate (fst (Bacterium_constructor opts rnd k)) = js_or (o_mutationRate opts) (1 / 10)"
  "snd (Bacterium_constructor opts rnd k) = k + 3"
  by (simp_all add: Bacterium_constructor_def Let_def)

lemma constructor_state:
  "b_age (fst (Bacterium_constructor opts rnd k)) = 0"
  "b_energy (fst (Bacterium_constructor opts rnd k)) = Num 100"
  "b_alive (fst (Bacterium_constructor opts rnd k))"
  "b_reproductionCooldown (fst (Bacterium_constructor opts rnd k)) = 0"
  by (simp_all add: Bacterium_constructor_def Let_def)

lemma mutateProperty_nonzero:
  assumes "unit_draws rnd" and "v \<noteq> 0"
  shows "fst (mutateProperty b v rnd k) \<noteq> 0"
proof -
  have "0 \<le> rnd (Suc k)" using assms(1) by (simp add: unit_draws_def)
  then have "0 < 1 + (rnd (Suc k) * 2 - 1) * (2 / 10)" by (simp add: algebra_simps)
  then show ?thesis
    using assms(2) by (simp add: mutateProperty_def Let_def)
qed

lemma updateStatistics_shape:
  "updateStatistics e bs = e\<lparr> statistics := statistics (updateStatistics e bs) \<rparr>"
  by (simp add: updateStatistics_def Let_def)

lemma Environment_update_scalars:
  "width (fst (Environment_update e bs rnd k)) = width e"
  "height (fst (Environment_update e bs rnd k)) = height e"
  "temperature (fst (Environment_update e bs rnd k)) = temperature e"
  "pH (fst (Environment_update e bs rnd k)) = pH e"
  "carryingCapacity (fst (Environment_update e bs rnd k)) = carryingCapacity e"
  "generation (fst (Environment_update e bs rnd k)) = generation e + 1"
proof -
  define st where "st = statistics (updateStatistics (e\<lparr> generation := generation e + 1 \<rparr>) bs)"
  have e2: "updateStatistics (e\<lparr> generation := generation e + 1 \<rparr>) bs
              = e\<lparr> generation := generation e + 1, statistics := st \<rparr>"
    unfolding st_def by (subst updateStatistics_shape) simp
  show "width (fst (Environment_update e bs rnd k)) = width e"
    "height (fst (Environment_update e bs rnd k)) = height e"
    "temperature (fst (Environment_update e bs rnd k)) = temperature e"
    "pH (fst (Environment_update e bs rnd k)) = pH e"
    "carryingCapacity (fst (Environment_update e bs rnd k)) = carryingCapacity e"
    "generation (fst (Environment_update e bs rnd k)) = generation e + 1"
    unfolding Environment_update_def Let_def e2
    by (simp_all add: case_prod_beta)
qed

lemma Environment_update_quiet:
  assumes "(generation e + 1) mod 100 \<noteq> 0" and "(generation e + 1) mod 150 \<noteq> 0"
  shows "nutrientDistribution (fst (Environment_update e bs rnd k)) = nutrientDistribution e"
    and "toxicityDistribution (fst (Environment_update e bs rnd k)) = toxicityDistribution e"
    and "snd (Environment_update e bs rnd k) = k"
proof -
  define st where "st = statistics (updateStatistics (e\<lparr> generation := generation e + 1 \<rparr>) bs)"
  have e2: "updateStatistics (e\<lparr> generation := generation e + 1 \<rparr>) bs
              = e\<lparr> generation := generation e + 1, statistics := st \<rparr>"
    unfolding st_def by (subst updateStatistics_shape) simp
  show "nutrientDistribution (fst (Environment_update e bs rnd k)) = nutrientDistribution e"
    and "toxicityDistribution (fst (Environment_update e bs rnd k)) = toxicityDistribution e"
    and "snd (Environment_update e bs rnd k) = k"
    unfolding Environment_update_def Let_def e2
    using assms by (simp_all add: case_prod_beta)
qed

section \<open>Bacterium: mutation\<close>

text \<open>
  C9. For an agent whose \<open>mutationRate\<close> is 0, \<open>mutateProperty(v)\<close> returns \<open>v\<close>
  exactly, for every trait value \<open>v\<close>: the draw of \<open>Math.random()\<close> is never below 0,
  so the mutation branch is not taken. One draw is consumed.
\<close>

theorem mutateProperty_zero_rate_identity:
  "b_mutationRate b = 0 \<Longrightarrow> unit_draws rnd \<Longrightarrow> mutateProperty b v rnd k = (v, Suc k)"
  by (simp add: mutateProperty_def unit_draws_def not_less)

theorem mutateProperty_zero_rate_identity_witness:
  "b_mutationRate (balanced\<lparr> b_mutationRate := 0 \<rparr>) = 0 \<and> unit_draws (\<lambda>n. 0)
   \<and> mutateProperty (balanced\<lparr> b_mutationRate := 0 \<rparr>) 5 (\<lambda>n. 0) 0 = (5, Suc 0)"
  using mutateProperty_zero_rate_identity [of "balanced\<lparr> b_mutationRate := 0 \<rparr>" "\<lambda>n. 0" 5 0]
  by (simp add: unit_draws_def)

section \<open>Bacterium: one step\<close>

text \<open>
  C6. For every alive agent, one call of \<open>update\<close> leaves the energy at
  \<open>energy - consumption + absorbed\<close> in JavaScript arithmetic, where
  \<open>consumption = size * metabolism * Tfactor * PHfactor * Toxfactor\<close>. When the energy
  and the local nutrient \<open>n\<close> and toxicity \<open>t\<close> are numbers this is the real number
  written below; when one of them is \<open>NaN\<close> or \<open>undefined\<close> it is \<open>NaN\<close>. The age is
  incremented. The agent ends with \<open>alive = false\<close> exactly when the resulting energy
  is at most 0 (never so for \<open>NaN\<close>) or the incremented age has reached the lifespan,
  and the call returns the final \<open>alive\<close> flag. A survivor moves: its velocity is
  redrawn as \<open>(Math.random() * 2 - 1) * speed\<close> per axis when the first draw is below
  0.1 and kept otherwise, its position advances by the velocity, and a coordinate
  that leaves the extent is put on the boundary with its velocity component negated.
  A dead agent does not move and draws nothing.
\<close>

theorem update_energy_balance:
  assumes "b_alive b"
  shows "let Tfactor = 1 + \<bar>le_temperature env - 50\<bar> / 50 * (1 - b_resistance b * (1 / 2));
             PHfactor = 1 + \<bar>le_pH env - 7\<bar> / 7 * (1 - b_resistance b * (1 / 2));
             Toxfactor = jsnum_add (Num 1)
                 (jsnum_mul (ToNumber (le_toxicity env)) (Num (1 - b_resistance b * (8 / 10))));
             consumption = jsnum_mul (Num (b_size b * b_metabolism b * Tfactor * PHfactor)) Toxfactor;
             absorbed = jsnum_mul (jsnum_mul (ToNumber (le_nutrients env)) (Num (b_size b * (1 / 2))))
                 (Num (1 / 2 + b_metabolism b * (1 / 2)));
             energy' = jsnum_add (jsnum_sub (b_energy b) consumption) absorbed;
             aged = b\<lparr> b_age := b_age b + 1,
                       b_reproductionCooldown := b_reproductionCooldown b - 1,
                       b_energy := energy' \<rparr>;
             vx0 = (if rnd k < 1 / 10 then (rnd (k + 1) * 2 - 1) * b_speed b else b_vx b);
             vy0 = (if rnd k < 1 / 10 then (rnd (k + 2) * 2 - 1) * b_speed b else b_vy b);
             x1 = b_x b + vx0;
             y1 = b_y b + vy0;
             (b', ret, k') = Bacterium_update b env rnd k
         in b_energy b' = energy'
            \<and> (b_energy b = Num e \<and> le_nutrients env = Some n \<and> le_toxicity env = Some t \<longrightarrow>
                 energy' = Num (e - b_size b * b_metabolism b * Tfactor * PHfactor
                                      * (1 + t * (1 - b_resistance b * (8 / 10)))
                                  + n * (b_size b * (1 / 2)) * (1 / 2 + b_metabolism b * (1 / 2))))
            \<and> (b_energy b = NaN \<or> le_nutrients env = None \<or> le_toxicity env = None \<longrightarrow>
                 energy' = NaN)
            \<and> b_age b' = b_age b + 1
            \<and> (\<not> b_alive b' \<longleftrightarrow> jsnum_le energy' 0 \<or> b_lifespan b \<le> real (b_age b + 1))
            \<and> ret = b_alive b'
            \<and> (b_alive b' \<longrightarrow>
                 (b', k') = move aged env rnd k
                 \<and> b' = aged\<lparr>
                      b_x := (if x1 < 0 then 0 else if x1 > le_width env then le_width env else x1),
                      b_y := (if y1 < 0 then 0 else if y1 > le_height env then le_height env else y1),
                      b_vx := (if x1 < 0 \<or> x1 > le_width env then - vx0 else vx0),
                      b_vy := (if y1 < 0 \<or> y1 > le_height env then - vy0 else vy0) \<rparr>
                 \<and> k' = (if rnd k < 1 / 10 then k + 3 else k + 1))
            \<and> (\<not> b_alive b' \<longrightarrow> b' = aged\<lparr> b_alive := False \<rparr> \<and> k' = k)"
proof -
  define Tfactor where "Tfactor = 1 + \<bar>le_temperature env - 50\<bar> / 50 * (1 - b_resistance b * (1 / 2))"
  define PHfactor where "PHfactor = 1 + \<bar>le_pH env - 7\<bar> / 7 * (1 - b_resistance b * (1 / 2))"
  define energy' where "energy' = jsnum_add (jsnum_sub (b_energy b)
        (jsnum_mul (Num (b_size b * b_metabolism b * Tfactor * PHfactor))
           (jsnum_add (Num 1)
              (jsnum_mul (ToNumber (le_toxicity env)) (Num (1 - b_resistance b * (8 / 10)))))))
        (jsnum_mul (jsnum_mul (ToNumber (le_nutrients env)) (Num (b_size b * (1 / 2))))
           (Num (1 / 2 + b_metabolism b * (1 / 2))))"
  define aged where "aged = b\<lparr> b_age := b_age b + 1,
        b_reproductionCooldown := b_reproductionCooldown b - 1, b_energy := energy' \<rparr>"
  have run: "Bacterium_update b env rnd k =
      (if jsnum_le energy' 0 \<or> b_lifespan b \<le> real (b_age b + 1)
       then (aged\<lparr> b_alive := False \<rparr>, False, k)
       else (fst (move aged env rnd k), True, snd (move aged env rnd k)))"
    using assms
    unfolding Bacterium_update_def Let_def cooldown_tick
    by (simp add: calculateTemperatureFactor_def calculatePHFactor_def
        calculateToxicityFactor_def absorbNutrients_def energy'_def aged_def
        Tfactor_def PHfactor_def split: prod.splits)
  have aged_fields: "b_alive aged" "b_energy aged = energy'" "b_age aged = b_age b + 1"
    "b_x aged = b_x b" "b_y aged = b_y b" "b_vx aged = b_vx b" "b_vy aged = b_vy b"
    "b_speed aged = b_speed b"
    using assms by (simp_all add: aged_def)
  have numeric: "energy' = Num (e - b_size b * b_metabolism b * Tfactor * PHfactor
                                      * (1 + t * (1 - b_resistance b * (8 / 10)))
                                  + n * (b_size b * (1 / 2)) * (1 / 2 + b_metabolism b * (1 / 2)))"
    if "b_energy b = Num e \<and> le_nutrients env = Some n \<and> le_toxicity env = Some t"
    using that by (simp add: energy'_def)
  have poisoned: "energy' = NaN"
    if "b_energy b = NaN \<or> le_nutrients env = None \<or> le_toxicity env = None"
  proof -
    have a: "jsnum_add x NaN = NaN" "jsnum_sub x NaN = NaN" "jsnum_mul x NaN = NaN" for x
      by (cases x; simp)+
    have b: "jsnum_add NaN x = NaN" "jsnum_sub NaN x = NaN" "jsnum_mul NaN x = NaN" for x
      by simp_all
    from that show ?thesis
      by (auto simp: energy'_def a b)
  qed
  show ?thesis
    unfolding Let_def Tfactor_def [symmetric] PHfactor_def [symmetric]
      energy'_def [symmetric] aged_def [symmetric] run
    using numeric poisoned
    by (simp add: move_frame aged_fields move_explicit [of aged] Let_def)
qed


theorem update_energy_balance_witness:
  "b_alive mover \<and> b_energy mover = Num 100
   \<and> le_nutrients neutral_local = Some 5 \<and> le_toxicity neutral_local = Some 0
   \<and> Bacterium_update mover neutral_local (\<lambda>n. 1 / 2) 0
       = (mover\<lparr> b_age := 1, b_energy := Num (215 / 2),
                  b_x := 800, b_y := 0, b_vx := - 3, b_vy := 2 \<rparr>, True, 1)
   \<and> Bacterium_update balanced neutral_local redraw_tape 0
       = (balanced\<lparr> b_age := 1, b_energy := Num (215 / 2),
                     b_x := 201 / 2, b_y := 201 / 2, b_vx := 1 / 2, b_vy := 1 / 2 \<rparr>, True, 3)
   \<and> Bacterium_update (balanced\<lparr> b_age := 99 \<rparr>) neutral_local (\<lambda>n. 1 / 2) 0
       = (balanced\<lparr> b_age := 100, b_energy := Num (215 / 2), b_alive := False \<rparr>, False, 0)
   \<and> Bacterium_update (balanced\<lparr> b_energy := Num 1 \<rparr>) (neutral_local\<lparr> le_nutrients := Some 0 \<rparr>)
         (\<lambda>n. 1 / 2) 0
       = (balanced\<lparr> b_age := 1, b_energy := Num (- 4), b_alive := False \<rparr>, False, 0)
   \<and> b_energy (balanced\<lparr> b_energy := NaN \<rparr>) = NaN
   \<and> Bacterium_update (balanced\<lparr> b_energy := NaN \<rparr>) neutral_local (\<lambda>n. 1 / 2) 0
       = (balanced\<lparr> b_age := 1, b_energy := NaN \<rparr>, True, 1)
   \<and> le_nutrients (neutral_local\<lparr> le_nutrients := None \<rparr>) = None
   \<and> Bacterium_update mover (neutral_local\<lparr> le_nutrients := None \<rparr>) (\<lambda>n. 1 / 2) 0
       = (mover\<lparr> b_age := 1, b_energy := NaN,
                  b_x := 800, b_y := 0, b_vx := - 3, b_vy := 2 \<rparr>, True, 1)"
  using update_energy_balance [of mover neutral_local "\<lambda>n. 1 / 2" 0 100 5 0]
    update_energy_balance [of balanced neutral_local redraw_tape 0 100 5 0]
    update_energy_balance [of "balanced\<lparr> b_age := 99 \<rparr>" neutral_local "\<lambda>n. 1 / 2" 0 100 5 0]
    update_energy_balance [of "balanced\<lparr> b_energy := Num 1 \<rparr>"
      "neutral_local\<lparr> le_nutrients := Some 0 \<rparr>" "\<lambda>n. 1 / 2" 0 1 0 0]
    update_energy_balance [of "balanced\<lparr> b_energy := NaN \<rparr>" neutral_local "\<lambda>n. 1 / 2" 0 100 5 0]
    update_energy_balance [of mover "neutral_local\<lparr> le_nutrients := None \<rparr>" "\<lambda>n. 1 / 2" 0 100 5 0]
  by (simp add: mover_def balanced_def neutral_local_def redraw_tape_def Let_def
      split: prod.splits)

section \<open>Bacterium: reproduction\<close>

text \<open>
  C7, as stated, fails at the lower end of the jitter: when \<open>Math.random()\<close> returns
  0, the child is placed at exactly the parent's position minus 5 on that axis, and
  -5 is not inside (-5, 5).
\<close>

theorem jitter_reaches_minus_five_counterexample:
  "unit_draws (\<lambda>n. 0)
   \<and> map_option (\<lambda>c. (b_x c - b_x balanced, b_y c - b_y balanced))
         (fst (snd (reproduce balanced neutral_local (\<lambda>n. 0) 0))) = Some (- 5, - 5)"
  by (simp add: reproduce_def balanced_def unit_draws_def Let_def mutateProperty_def
      case_prod_beta constructor_fields)

text \<open>
  C7, amended. \<open>reproduce\<close> returns no offspring when the agent is not alive, its
  cooldown is greater than 0, or its energy is below 50, and then the parent (and the
  position on the tape of random draws) is unchanged. Otherwise the parent's energy
  is multiplied by 0.7, its cooldown is set to 20, and exactly one child is returned.
  The child's position is the parent's plus \<open>Math.random() * 10 - 5\<close> per axis, a
  jitter in [-5, 5): the lower end included, the upper excluded. Every trait,
  \<open>mutationRate\<close> included, is the parent's trait passed through \<open>mutateProperty\<close>
  in the order of the object literal, where \<open>mutateProperty(v)\<close> is
  \<open>v * (1 + (Math.random() * 2 - 1) * 0.2)\<close> when a first draw is below the
  parent's mutation rate and \<open>v\<close> otherwise; the constructor's default only stands in
  for a result of exactly 0, which no parent with non-zero traits produces.
\<close>

theorem reproduce_outcome:
  "(\<not> b_alive b \<or> 0 < b_reproductionCooldown b \<or> jsnum_lt (b_energy b) 50
      \<longrightarrow> reproduce b env rnd k = (b, None, k))
   \<and> (b_alive b \<and> b_reproductionCooldown b = 0 \<and> \<not> jsnum_lt (b_energy b) 50 \<longrightarrow>
       (let parent = b\<lparr> b_energy := jsnum_mul (b_energy b) (Num (7 / 10)),
                         b_reproductionCooldown := 20 \<rparr>;
            (c_size, k3) = mutateProperty parent (b_size b) rnd (k + 2);
            (c_speed, k4) = mutateProperty parent (b_speed b) rnd k3;
            (c_metabolism, k5) = mutateProperty parent (b_metabolism b) rnd k4;
            (c_resistance, k6) = mutateProperty parent (b_resistance b) rnd k5;
            (c_lifespan, k7) = mutateProperty parent (b_lifespan b) rnd k6;
            (c_mutationRate, k8) = mutateProperty parent (b_mutationRate b) rnd k7
        in \<exists>child. reproduce b env rnd k = (parent, Some child, k8 + 3)
             \<and> b_x child = b_x b + (rnd k * 10 - 5)
             \<and> b_y child = b_y b + (rnd (k + 1) * 10 - 5)
             \<and> b_size child = (if c_size = 0 then 5 else c_size)
             \<and> b_speed child = (if c_speed = 0 then 1 else c_speed)
             \<and> b_metabolism child = (if c_metabolism = 0 then 1 else c_metabolism)
             \<and> b_resistance child = (if c_resistance = 0 then 1 else c_resistance)
             \<and> b_lifespan child = (if c_lifespan = 0 then 100 else c_lifespan)
             \<and> b_mutationRate child = (if c_mutationRate = 0 then 1 / 10 else c_mutationRate)
             \<and> (unit_draws rnd \<longrightarrow>
                   - 5 \<le> rnd k * 10 - 5 \<and> rnd k * 10 - 5 < 5
                   \<and> - 5 \<le> rnd (k + 1) * 10 - 5 \<and> rnd (k + 1) * 10 - 5 < 5)
             \<and> (unit_draws rnd \<and> b_size b \<noteq> 0 \<and> b_speed b \<noteq> 0 \<and> b_metabolism b \<noteq> 0
                  \<and> b_resistance b \<noteq> 0 \<and> b_lifespan b \<noteq> 0 \<and> b_mutationRate b \<noteq> 0 \<longrightarrow>
                   b_size child = c_size \<and> b_speed child = c_speed
                   \<and> b_metabolism child = c_metabolism \<and> b_resistance child = c_resistance
                   \<and> b_lifespan child = c_lifespan \<and> b_mutationRate child = c_mutationRate)))
   \<and> mutateProperty p v rnd j =
       (if rnd j < b_mutationRate p
        then (v * (1 + (rnd (j + 1) * 2 - 1) * (2 / 10)), j + 2)
        else (v, j + 1))"
proof (intro conjI impI)
  assume "\<not> b_alive b \<or> 0 < b_reproductionCooldown b \<or> jsnum_lt (b_energy b) 50"
  then show "reproduce b env rnd k = (b, None, k)"
    by (auto simp: reproduce_def)
next
  assume ok: "b_alive b \<and> b_reproductionCooldown b = 0 \<and> \<not> jsnum_lt (b_energy b) 50"
  define parent where "parent = b\<lparr> b_energy := jsnum_mul (b_energy b) (Num (7 / 10)),
                         b_reproductionCooldown := 20 \<rparr>"
  obtain c_size k3 where m1: "mutateProperty parent (b_size b) rnd (k + 2) = (c_size, k3)"
    by (cases "mutateProperty parent (b_size b) rnd (k + 2)")
  obtain c_speed k4 where m2: "mutateProperty parent (b_speed b) rnd k3 = (c_speed, k4)"
    by (cases "mutateProperty parent (b_speed b) rnd k3")
  obtain c_metabolism k5 where m3: "mutateProperty parent (b_metabolism b) rnd k4 = (c_metabolism, k5)"
    by (cases "mutateProperty parent (b_metabolism b) rnd k4")
  obtain c_resistance k6 where m4: "mutateProperty parent (b_resistance b) rnd k5 = (c_resistance, k6)"
    by (cases "mutateProperty parent (b_resistance b) rnd k5")
  obtain c_lifespan k7 where m5: "mutateProperty parent (b_lifespan b) rnd k6 = (c_lifespan, k7)"
    by (cases "mutateProperty parent (b_lifespan b) rnd k6")
  obtain c_mutationRate k8 where m6: "mutateProperty parent (b_mutationRate b) rnd k7 = (c_mutationRate, k8)"
    by (cases "mutateProperty parent (b_mutationRate b) rnd k7")
  define childProperties where "childProperties =
     \<lparr> o_x = Val (b_x b + (rnd k * 10 - 5)), o_y = Val (b_y b + (rnd (k + 1) * 10 - 5)),
       o_size = Val c_size, o_speed = Val c_speed, o_metabolism = Val c_metabolism,
       o_resistance = Val c_resistance, o_lifespan = Val c_lifespan,
       o_mutationRate = Val c_mutationRate, o_color = None \<rparr>"
  define child where "child = fst (Bacterium_constructor childProperties rnd k8)"
  have con: "Bacterium_constructor childProperties rnd k8 = (child, k8 + 3)"
    by (simp add: child_def constructor_fields prod_eq_iff)
  have run: "reproduce b env rnd k = (parent, Some child, k8 + 3)"
    using ok m1 m2 m3 m4 m5 m6 con
    by (simp add: reproduce_def Let_def parent_def [symmetric] childProperties_def)
  have nz: "c \<noteq> 0"
    if "unit_draws rnd" and "v \<noteq> 0" and "mutateProperty parent v rnd j = (c, j')" for v j c j'
    using mutateProperty_nonzero [of rnd v parent j] that by simp
  have jit: "- 5 \<le> rnd j * 10 - 5 \<and> rnd j * 10 - 5 < 5" if "unit_draws rnd" for j
  proof -
    have "0 \<le> rnd j" "rnd j < 1" using that by (simp_all add: unit_draws_def)
    then show ?thesis by linarith
  qed
  show "let parent = b\<lparr> b_energy := jsnum_mul (b_energy b) (Num (7 / 10)),
                         b_reproductionCooldown := 20 \<rparr>;
            (c_size, k3) = mutateProperty parent (b_size b) rnd (k + 2);
            (c_speed, k4) = mutateProperty parent (b_speed b) rnd k3;
            (c_metabolism, k5) = mutateProperty parent (b_metabolism b) rnd k4;
            (c_resistance, k6) = mutateProperty parent (b_resistance b) rnd k5;
            (c_lifespan, k7) = mutateProperty parent (b_lifespan b) rnd k6;
            (c_mutationRate, k8) = mutateProperty parent (b_mutationRate b) rnd k7
        in \<exists>child. reproduce b env rnd k = (parent, Some child, k8 + 3)
             \<and> b_x child = b_x b + (rnd k * 10 - 5)
             \<and> b_y child = b_y b + (rnd (k + 1) * 10 - 5)
             \<and> b_size child = (if c_size = 0 then 5 else c_size)
             \<and> b_speed child = (if c_speed = 0 then 1 else c_speed)
             \<and> b_metabolism child = (if c_metabolism = 0 then 1 else c_metabolism)
             \<and> b_resistance child = (if c_resistance = 0 then 1 else c_resistance)
             \<and> b_lifespan child = (if c_lifespan = 0 then 100 else c_lifespan)
             \<and> b_mutationRate child = (if c_mutationRate = 0 then 1 / 10 else c_mutationRate)
             \<and> (unit_draws rnd \<longrightarrow>
                   - 5 \<le> rnd k * 10 - 5 \<and> rnd k * 10 - 5 < 5
                   \<and> - 5 \<le> rnd (k + 1) * 10 - 5 \<and> rnd (k + 1) * 10 - 5 < 5)
             \<and> (unit_draws rnd \<and> b_size b \<noteq> 0 \<and> b_speed b \<noteq> 0 \<and> b_metabolism b \<noteq> 0
                  \<and> b_resistance b \<noteq> 0 \<and> b_lifespan b \<noteq> 0 \<and> b_mutationRate b \<noteq> 0 \<longrightarrow>
                   b_size child = c_size \<and> b_speed child = c_speed
                   \<and> b_metabolism child = c_metabolism \<and> b_resistance child = c_resistance
                   \<and> b_lifespan child = c_lifespan \<and> b_mutationRate child = c_mutationRate)"
    unfolding Let_def parent_def [symmetric] m1 m2 m3 m4 m5 m6 prod.case
    apply (rule exI [of _ child])
    apply (intro conjI impI)
    using run nz [OF _ _ m1] nz [OF _ _ m2] nz [OF _ _ m3] nz [OF _ _ m4] nz [OF _ _ m5] nz [OF _ _ m6] jit
    apply (simp_all add: child_def childProperties_def constructor_fields)
    done
next
  show "mutateProperty p v rnd j =
       (if rnd j < b_mutationRate p
        then (v * (1 + (rnd (j + 1) * 2 - 1) * (2 / 10)), j + 2)
        else (v, j + 1))"
    by (simp add: mutateProperty_def Let_def)
qed

theorem reproduce_outcome_witness:
  "b_alive balanced \<and> b_reproductionCooldown balanced = 0 \<and> \<not> jsnum_lt (b_energy balanced) 50
   \<and> unit_draws (\<lambda>n. 1 / 20)
   \<and> (case reproduce balanced neutral_local (\<lambda>n. 1 / 20) 0 of
         (parent, child, k') \<Rightarrow>
           (parent, map_option (\<lambda>c. (b_x c, b_y c, b_size c, b_speed c, b_metabolism c,
                                       b_resistance c, b_lifespan c, b_mutationRate c)) child, k'))
       = (balanced\<lparr> b_energy := Num 70, b_reproductionCooldown := 20 \<rparr>,
          Some (191 / 2, 191 / 2, 41 / 10, 82 / 100, 82 / 100, 82 / 100, 82, 82 / 1000), 17)
   \<and> unit_draws (\<lambda>n. 1 / 2)
   \<and> (case reproduce balanced neutral_local (\<lambda>n. 1 / 2) 0 of
         (parent, child, k') \<Rightarrow>
           (parent, map_option (\<lambda>c. (b_x c, b_y c, b_size c, b_speed c, b_metabolism c,
                                       b_resistance c, b_lifespan c, b_mutationRate c)) child, k'))
       = (balanced\<lparr> b_energy := Num 70, b_reproductionCooldown := 20 \<rparr>,
          Some (100, 100, 5, 1, 1, 1, 100, 1 / 10), 11)
   \<and> jsnum_lt (b_energy (balanced\<lparr> b_energy := Num 10 \<rparr>)) 50
   \<and> reproduce (balanced\<lparr> b_energy := Num 10 \<rparr>) neutral_local (\<lambda>n. 1 / 2) 0
        = (balanced\<lparr> b_energy := Num 10 \<rparr>, None, 0)
   \<and> 0 < b_reproductionCooldown (balanced\<lparr> b_reproductionCooldown := 3 \<rparr>)
   \<and> reproduce (balanced\<lparr> b_reproductionCooldown := 3 \<rparr>) neutral_local (\<lambda>n. 1 / 2) 0
        = (balanced\<lparr> b_reproductionCooldown := 3 \<rparr>, None, 0)
   \<and> \<not> b_alive (balanced\<lparr> b_alive := False \<rparr>)
   \<and> reproduce (balanced\<lparr> b_alive := False \<rparr>) neutral_local (\<lambda>n. 1 / 2) 0
        = (balanced\<lparr> b_alive := False \<rparr>, None, 0)"
proof -
  note mp = reproduce_outcome [THEN conjunct2, THEN conjunct2]
  have mutating: "(case reproduce balanced neutral_local (\<lambda>n. 1 / 20) 0 of
         (parent, child, k') \<Rightarrow>
           (parent, map_option (\<lambda>c. (b_x c, b_y c, b_size c, b_speed c, b_metabolism c,
                                       b_resistance c, b_lifespan c, b_mutationRate c)) child, k'))
       = (balanced\<lparr> b_energy := Num 70, b_reproductionCooldown := 20 \<rparr>,
          Some (191 / 2, 191 / 2, 41 / 10, 82 / 100, 82 / 100, 82 / 100, 82, 82 / 1000), 17)"
    using reproduce_outcome [of balanced neutral_local "\<lambda>n. 1 / 20" 0 balanced 0 0]
    by (auto simp: mp balanced_def unit_draws_def Let_def)
  have copying: "(case reproduce balanced neutral_local (\<lambda>n. 1 / 2) 0 of
         (parent, child, k') \<Rightarrow>
           (parent, map_option (\<lambda>c. (b_x c, b_y c, b_size c, b_speed c, b_metabolism c,
                                       b_resistance c, b_lifespan c, b_mutationRate c)) child, k'))
       = (balanced\<lparr> b_energy := Num 70, b_reproductionCooldown := 20 \<rparr>,
          Some (100, 100, 5, 1, 1, 1, 100, 1 / 10), 11)"
    using reproduce_outcome [of balanced neutral_local "\<lambda>n. 1 / 2" 0 balanced 0 0]
    by (auto simp: mp balanced_def unit_draws_def Let_def)
  show ?thesis
    using mutating copying
      reproduce_outcome [of "balanced\<lparr> b_energy := Num 10 \<rparr>" neutral_local "\<lambda>n. 1 / 2" 0 balanced 0 0]
      reproduce_outcome [of "balanced\<lparr> b_reproductionCooldown := 3 \<rparr>" neutral_local "\<lambda>n. 1 / 2" 0 balanced 0 0]
      reproduce_outcome [of "balanced\<lparr> b_alive := False \<rparr>" neutral_local "\<lambda>n. 1 / 2" 0 balanced 0 0]
    by (simp add: balanced_def unit_draws_def)
qed

section \<open>Falsy seeds\<close>

lemma seed_or_random_falsy:
  "falsy seed \<Longrightarrow>
     seed_or_random seed baseline spread rnd k = (baseline + (rnd k * spread - spread / 2), Suc k)"
  by (simp add: seed_or_random_def)

lemma seed_or_random_draw:
  assumes f: "falsy seed" and u: "unit_draws rnd" and s: "0 < spread"
  shows "baseline - spread / 2 \<le> fst (seed_or_random seed baseline spread rnd k)
     \<and> fst (seed_or_random seed baseline spread rnd k) < baseline + spread / 2"
proof -
  have r: "0 \<le> rnd k" "rnd k < 1" using u by (simp_all add: unit_draws_def)
  have "0 \<le> rnd k * spread" using r s by simp
  moreover have "rnd k * spread < spread" using r s by simp
  ultimately show ?thesis unfolding seed_or_random_falsy [OF f] fst_conv by linarith
qed

lemma js_or_Val_bounds:
  "0 < lo \<Longrightarrow> lo \<le> v \<and> v < hi \<Longrightarrow> lo \<le> js_or (Val v) d \<and> js_or (Val v) d < hi"
  by auto

lemma new_seeded_traits:
  "\<exists>j. b_size (fst (new_seeded_bacterium s rnd k))
       = js_or (Val (fst (seed_or_random (o_size (initialBacteriaParams s)) 5 3 rnd j))) 5"
  "\<exists>j. b_speed (fst (new_seeded_bacterium s rnd k))
       = js_or (Val (fst (seed_or_random (o_speed (initialBacteriaParams s)) 1 (6 / 10) rnd j))) 1"
  "\<exists>j. b_metabolism (fst (new_seeded_bacterium s rnd k))
       = js_or (Val (fst (seed_or_random (o_metabolism (initialBacteriaParams s)) 1 (4 / 10) rnd j))) 1"
  "\<exists>j. b_resistance (fst (new_seeded_bacterium s rnd k))
       = js_or (Val (fst (seed_or_random (o_resistance (initialBacteriaParams s)) 1 (4 / 10) rnd j))) 1"
  "\<exists>j. b_lifespan (fst (new_seeded_bacterium s rnd k))
       = js_or (Val (fst (seed_or_random (o_lifespan (initialBacteriaParams s)) 100 40 rnd j))) 100"
  "\<exists>j. b_mutationRate (fst (new_seeded_bacterium s rnd k))
       = js_or (Val (fst (seed_or_random (o_mutationRate (initialBacteriaParams s)) (1 / 10) (4 / 100) rnd j))) (1 / 10)"
  unfolding new_seeded_bacterium_def Let_def case_prod_beta constructor_fields
    bacterium_options.simps
  by (rule exI, rule refl)+


lemma new_seeded_ok:
  assumes "unit_draws rnd"
  shows "randomized_where_falsy (initialBacteriaParams s) (fst (new_seeded_bacterium s rnd k))"
proof -
  obtain j1 j2 j3 j4 j5 j6 where t:
    "b_size (fst (new_seeded_bacterium s rnd k))
       = js_or (Val (fst (seed_or_random (o_size (initialBacteriaParams s)) 5 3 rnd j1))) 5"
    "b_speed (fst (new_seeded_bacterium s rnd k))
       = js_or (Val (fst (seed_or_random (o_speed (initialBacteriaParams s)) 1 (6 / 10) rnd j2))) 1"
    "b_metabolism (fst (new_seeded_bacterium s rnd k))
       = js_or (Val (fst (seed_or_random (o_metabolism (initialBacteriaParams s)) 1 (4 / 10) rnd j3))) 1"
    "b_resistance (fst (new_seeded_bacterium s rnd k))
       = js_or (Val (fst (seed_or_random (o_resistance (initialBacteriaParams s)) 1 (4 / 10) rnd j4))) 1"
    "b_lifespan (fst (new_seeded_bacterium s rnd k))
       = js_or (Val (fst (seed_or_random (o_lifespan (initialBacteriaParams s)) 100 40 rnd j5))) 100"
    "b_mutationRate (fst (new_seeded_bacterium s rnd k))
       = js_or (Val (fst (seed_or_random (o_mutationRate (initialBacteriaParams s)) (1 / 10) (4 / 100) rnd j6))) (1 / 10)"
    using new_seeded_traits [of s rnd k] by blast
  have d: "lo \<le> js_or (Val (fst (seed_or_random seed baseline spread rnd j))) dflt
           \<and> js_or (Val (fst (seed_or_random seed baseline spread rnd j))) dflt < hi"
    if "falsy seed" and "0 < spread" and "lo = baseline - spread / 2"
      and "hi = baseline + spread / 2" and "0 < lo"
    for seed baseline spread j dflt lo hi
    using seed_or_random_draw [OF that(1) assms that(2), of baseline j] that(3,4,5)
    by (intro js_or_Val_bounds) simp_all
  show ?thesis
    unfolding randomized_where_falsy_def t
    by (intro conjI impI d) simp_all
qed

lemma populate_ok:
  "unit_draws rnd \<Longrightarrow> b \<in> set (fst (populate s n rnd k))
     \<Longrightarrow> randomized_where_falsy (initialBacteriaParams s) b"
proof (induction n arbitrary: k)
  case 0
  then show ?case by simp
next
  case (Suc n)
  from Suc.prems(2) have "b = fst (new_seeded_bacterium s rnd k)
      \<or> b \<in> set (fst (populate s n rnd (snd (new_seeded_bacterium s rnd k))))"
    by (simp add: Let_def case_prod_beta)
  then show ?case
    using new_seeded_ok [OF Suc.prems(1), of s k] Suc.IH [OF Suc.prems(1)] by blast
qed

lemma populate_length: "length (fst (populate s n rnd k)) = n"
  by (induction n arbitrary: k) (simp_all add: Let_def case_prod_beta)

text \<open>
  C10. A trait option of the \<open>Bacterium\<close> constructor that is falsy (absent, 0 or
  \<open>NaN\<close>) is replaced by the built-in default: size 5, speed 1, metabolism 1,
  resistance 1, lifespan 100, mutationRate 0.1. An explicit seed trait of
  \<open>initializePopulation\<close> that is falsy is replaced, in every one of the
  \<open>initialPopulation\<close> agents created, by the randomized baseline of the trait, which
  is never 0: an explicit 0 does not survive into a created agent.
\<close>

theorem falsy_seed_replaced:
  "(falsy (o_size opts) \<longrightarrow> b_size (fst (Bacterium_constructor opts rnd k)) = 5)
   \<and> (falsy (o_speed opts) \<longrightarrow> b_speed (fst (Bacterium_constructor opts rnd k)) = 1)
   \<and> (falsy (o_metabolism opts) \<longrightarrow> b_metabolism (fst (Bacterium_constructor opts rnd k)) = 1)
   \<and> (falsy (o_resistance opts) \<longrightarrow> b_resistance (fst (Bacterium_constructor opts rnd k)) = 1)
   \<and> (falsy (o_lifespan opts) \<longrightarrow> b_lifespan (fst (Bacterium_constructor opts rnd k)) = 100)
   \<and> (falsy (o_mutationRate opts)
        \<longrightarrow> b_mutationRate (fst (Bacterium_constructor opts rnd k)) = 1 / 10)
   \<and> (unit_draws rnd \<longrightarrow>
        length (bacteria (fst (initializePopulation s rnd k))) = initialPopulation s
        \<and> (\<forall>b \<in> set (bacteria (fst (initializePopulation s rnd k))).
              randomized_where_falsy (initialBacteriaParams s) b))"
proof -
  have f: "falsy v \<Longrightarrow> js_or v d = d" for v d
    by (cases v) simp_all
  have p: "bacteria (fst (initializePopulation s rnd k)) = fst (populate s (initialPopulation s) rnd k)"
    by (simp add: initializePopulation_def case_prod_beta)
  show ?thesis
    unfolding p constructor_fields
    using populate_ok [of rnd _ s "initialPopulation s" k]
    by (auto simp: f populate_length)
qed

theorem falsy_seed_replaced_witness:
  "falsy (o_size (no_seed\<lparr> o_size := Val 0 \<rparr>))
   \<and> b_size (fst (Bacterium_constructor (no_seed\<lparr> o_size := Val 0 \<rparr>) (\<lambda>n. 1 / 4) 0)) = 5
   \<and> unit_draws (\<lambda>n. 1 / 4)
   \<and> falsy (o_size (initialBacteriaParams zero_seeded))
   \<and> map b_size (bacteria (fst (initializePopulation zero_seeded (\<lambda>n. 1 / 4) 0))) = [17 / 4, 17 / 4]
   \<and> map b_speed (bacteria (fst (initializePopulation zero_seeded (\<lambda>n. 1 / 4) 0))) = [17 / 20, 17 / 20]"
  using falsy_seed_replaced [of "no_seed\<lparr> o_size := Val 0 \<rparr>" "\<lambda>n. 1 / 4" 0 zero_seeded]
  by (simp add: no_seed_def zero_seeded_def unit_draws_def initializePopulation_def
      new_seeded_bacterium_def seed_or_random_def Let_def Bacterium_constructor_def
      numeral_2_eq_2)

section \<open>Capped histories\<close>

lemma push_capped_last_n:
  assumes "length h \<le> 1000"
  shows "push_capped h v = last_n 1000 (h @ [v])"
proof (cases "length h = 1000")
  case True
  have "tl ys = drop (Suc 0) ys" for ys :: "'a list"
    by (cases ys) simp_all
  then show ?thesis using True by (simp add: push_capped_def last_n_def Let_def)
next
  case False
  then have "length h < 1000" using assms by simp
  then show ?thesis by (simp add: push_capped_def last_n_def Let_def)
qed

lemma last_n_snoc:
  assumes "0 < n"
  shows "last_n n (last_n n xs @ [v]) = last_n n (xs @ [v])"
proof (cases "length xs \<le> n")
  case True
  then show ?thesis by (simp add: last_n_def)
next
  case False
  then have len: "n < length xs" by simp
  have l: "length (drop (length xs - n) xs) = n" using len by simp
  have "last_n n (last_n n xs @ [v]) = drop (Suc 0) (drop (length xs - n) xs @ [v])"
    using l assms by (simp add: last_n_def)
  also have "\<dots> = drop (Suc 0) (drop (length xs - n) (xs @ [v]))"
    using len by simp
  also have "\<dots> = drop (Suc (length xs - n)) (xs @ [v])"
    by (simp only: drop_drop) simp
  also have "\<dots> = last_n n (xs @ [v])"
    using len by (simp add: last_n_def Suc_diff_le)
  finally show ?thesis .
qed

lemma length_last_n: "length (last_n n xs) \<le> n"
  by (simp add: last_n_def)

lemma last_n_short: "length xs \<le> n \<Longrightarrow> last_n n xs = xs"
  by (simp add: last_n_def)

lemma last_push_capped: "push_capped h v \<noteq> [] \<and> last (push_capped h v) = v"
proof (cases "length (h @ [v]) > 1000")
  case True
  then have "tl (h @ [v]) = tl h @ [v]" by (cases h) simp_all
  then show ?thesis using True by (simp add: push_capped_def Let_def)
next
  case False
  then show ?thesis by (simp add: push_capped_def Let_def)
qed

lemma updateStatistics_population:
  "populationHistory (statistics (updateStatistics e bs))
     = push_capped (populationHistory (statistics e)) (length bs)"
  by (simp add: updateStatistics_def Let_def)

lemma updateStatistics_traits:
  "at_size (averageTraits (statistics (updateStatistics e bs)))
     = (if bs = [] then at_size (averageTraits (statistics e))
        else push_capped (at_size (averageTraits (statistics e))) (average b_size bs))"
  "at_speed (averageTraits (statistics (updateStatistics e bs)))
     = (if bs = [] then at_speed (averageTraits (statistics e))
        else push_capped (at_speed (averageTraits (statistics e))) (average b_speed bs))"
  "at_metabolism (averageTraits (statistics (updateStatistics e bs)))
     = (if bs = [] then at_metabolism (averageTraits (statistics e))
        else push_capped (at_metabolism (averageTraits (statistics e))) (average b_metabolism bs))"
  "at_resistance (averageTraits (statistics (updateStatistics e bs)))
     = (if bs = [] then at_resistance (averageTraits (statistics e))
        else push_capped (at_resistance (averageTraits (statistics e))) (average b_resistance bs))"
  "at_lifespan (averageTraits (statistics (updateStatistics e bs)))
     = (if bs = [] then at_lifespan (averageTraits (statistics e))
        else push_capped (at_lifespan (averageTraits (statistics e))) (average b_lifespan bs))"
  "at_mutationRate (averageTraits (statistics (updateStatistics e bs)))
     = (if bs = [] then at_mutationRate (averageTraits (statistics e))
        else push_capped (at_mutationRate (averageTraits (statistics e))) (average b_mutationRate bs))"
  by (simp_all add: updateStatistics_def Let_def)

lemma updateStatistics_frame:
  "extinctionEvents (statistics (updateStatistics e bs)) = extinctionEvents (statistics e)"
  "generation (updateStatistics e bs) = generation e"
  by (simp_all add: updateStatistics_def Let_def)

text \<open>The extinction test of \<open>update\<close> reads the history after the current count was pushed.\<close>

lemma Environment_update_statistics:
  "statistics (fst (Environment_update e bs rnd k))
     = statistics (updateStatistics (e\<lparr> generation := generation e + 1 \<rparr>) bs)"
proof -
  have "\<not> (10 < length bs \<and> real (length bs) \<le> real (length bs) * (1 / 2))"
    by auto
  then show ?thesis
    unfolding Environment_update_def Let_def
    by (simp add: case_prod_beta last_push_capped updateStatistics_population)
qed


lemma run_updates_snoc:
  "run_updates e (pops @ [bs]) rnd k =
     Environment_update (fst (run_updates e pops rnd k)) bs rnd (snd (run_updates e pops rnd k))"
  by (induction pops arbitrary: e k) (simp_all add: case_prod_beta)

lemma Environment_update_histories:
  "populationHistory (statistics (fst (Environment_update e bs rnd k)))
     = push_capped (populationHistory (statistics e)) (length bs)"
  "at_size (averageTraits (statistics (fst (Environment_update e bs rnd k))))
     = (if bs = [] then at_size (averageTraits (statistics e))
        else push_capped (at_size (averageTraits (statistics e))) (average b_size bs))"
  "at_speed (averageTraits (statistics (fst (Environment_update e bs rnd k))))
     = (if bs = [] then at_speed (averageTraits (statistics e))
        else push_capped (at_speed (averageTraits (statistics e))) (average b_speed bs))"
  "at_metabolism (averageTraits (statistics (fst (Environment_update e bs rnd k))))
     = (if bs = [] then at_metabolism (averageTraits (statistics e))
        else push_capped (at_metabolism (averageTraits (statistics e))) (average b_metabolism bs))"
  "at_resistance (averageTraits (statistics (fst (Environment_update e bs rnd k))))
     = (if bs = [] then at_resistance (averageTraits (statistics e))
        else push_capped (at_resistance (averageTraits (statistics e))) (average b_resistance bs))"
  "at_lifespan (averageTraits (statistics (fst (Environment_update e bs rnd k))))
     = (if bs = [] then at_lifespan (averageTraits (statistics e))
        else push_capped (at_lifespan (averageTraits (statistics e))) (average b_lifespan bs))"
  "at_mutationRate (averageTraits (statistics (fst (Environment_update e bs rnd k))))
     = (if bs = [] then at_mutationRate (averageTraits (statistics e))
        else push_capped (at_mutationRate (averageTraits (statistics e))) (average b_mutationRate bs))"
  "extinctionEvents (statistics (fst (Environment_update e bs rnd k)))
     = extinctionEvents (statistics e)"
  unfolding Environment_update_statistics updateStatistics_population updateStatistics_traits
    updateStatistics_frame
  by simp_all

text \<open>A history that receives the values \<open>vs\<close> one by one keeps the last 1000 of all.\<close>

lemma capped_run:
  assumes "length h \<le> 1000"
  shows "push_capped (last_n 1000 (h @ vs)) v = last_n 1000 (h @ vs @ [v])"
proof -
  have "push_capped (last_n 1000 (h @ vs)) v = last_n 1000 (last_n 1000 (h @ vs) @ [v])"
    by (rule push_capped_last_n) (rule length_last_n)
  also have "\<dots> = last_n 1000 ((h @ vs) @ [v])"
    by (rule last_n_snoc) simp
  finally show ?thesis by simp
qed

text \<open>
  C8. Over every sequence of \<open>update\<close> calls, \<open>populationHistory\<close> and each per-trait
  average history hold at most 1000 entries, and they hold exactly the last 1000 of
  the values appended so far, in order: when the cap is reached the oldest entry is
  evicted first. Each call appends one population count, and one average per trait
  when the population is not empty (none when it is empty).
\<close>

theorem histories_keep_last_1000:
  assumes "histories_capped e"
  shows "histories_capped (fst (run_updates e pops rnd k))
   \<and> populationHistory (statistics (fst (run_updates e pops rnd k)))
       = last_n 1000 (populationHistory (statistics e) @ map length pops)
   \<and> at_size (averageTraits (statistics (fst (run_updates e pops rnd k))))
       = last_n 1000 (at_size (averageTraits (statistics e))
                      @ map (average b_size) (filter (\<lambda>bs. bs \<noteq> []) pops))
   \<and> at_speed (averageTraits (statistics (fst (run_updates e pops rnd k))))
       = last_n 1000 (at_speed (averageTraits (statistics e))
                      @ map (average b_speed) (filter (\<lambda>bs. bs \<noteq> []) pops))
   \<and> at_metabolism (averageTraits (statistics (fst (run_updates e pops rnd k))))
       = last_n 1000 (at_metabolism (averageTraits (statistics e))
                      @ map (average b_metabolism) (filter (\<lambda>bs. bs \<noteq> []) pops))
   \<and> at_resistance (averageTraits (statistics (fst (run_updates e pops rnd k))))
       = last_n 1000 (at_resistance (averageTraits (statistics e))
                      @ map (average b_resistance) (filter (\<lambda>bs. bs \<noteq> []) pops))
   \<and> at_lifespan (averageTraits (statistics (fst (run_updates e pops rnd k))))
       = last_n 1000 (at_lifespan (averageTraits (statistics e))
                      @ map (average b_lifespan) (filter (\<lambda>bs. bs \<noteq> []) pops))
   \<and> at_mutationRate (averageTraits (statistics (fst (run_updates e pops rnd k))))
       = last_n 1000 (at_mutationRate (averageTraits (statistics e))
                      @ map (average b_mutationRate) (filter (\<lambda>bs. bs \<noteq> []) pops))"
proof -
  have c: "length (populationHistory (statistics e)) \<le> 1000"
    "length (at_size (averageTraits (statistics e))) \<le> 1000"
    "length (at_speed (averageTraits (statistics e))) \<le> 1000"
    "length (at_metabolism (averageTraits (statistics e))) \<le> 1000"
    "length (at_resistance (averageTraits (statistics e))) \<le> 1000"
    "length (at_lifespan (averageTraits (statistics e))) \<le> 1000"
    "length (at_mutationRate (averageTraits (statistics e))) \<le> 1000"
    using assms by (simp_all add: histories_capped_def)
  have eqs: "populationHistory (statistics (fst (run_updates e pops rnd k)))
       = last_n 1000 (populationHistory (statistics e) @ map length pops)
   \<and> at_size (averageTraits (statistics (fst (run_updates e pops rnd k))))
       = last_n 1000 (at_size (averageTraits (statistics e))
                      @ map (average b_size) (filter (\<lambda>bs. bs \<noteq> []) pops))
   \<and> at_speed (averageTraits (statistics (fst (run_updates e pops rnd k))))
       = last_n 1000 (at_speed (averageTraits (statistics e))
                      @ map (average b_speed) (filter (\<lambda>bs. bs \<noteq> []) pops))
   \<and> at_metabolism (averageTraits (statistics (fst (run_updates e pops rnd k))))
       = last_n 1000 (at_metabolism (averageTraits (statistics e))
                      @ map (average b_metabolism) (filter (\<lambda>bs. bs \<noteq> []) pops))
   \<and> at_resistance (averageTraits (statistics (fst (run_updates e pops rnd k))))
       = last_n 1000 (at_resistance (averageTraits (statistics e))
                      @ map (average b_resistance) (filter (\<lambda>bs. bs \<noteq> []) pops))
   \<and> at_lifespan (averageTraits (statistics (fst (run_updates e pops rnd k))))
       = last_n 1000 (at_lifespan (averageTraits (statistics e))
                      @ map (average b_lifespan) (filter (\<lambda>bs. bs \<noteq> []) pops))
   \<and> at_mutationRate (averageTraits (statistics (fst (run_updates e pops rnd k))))
       = last_n 1000 (at_mutationRate (averageTraits (statistics e))
                      @ map (average b_mutationRate) (filter (\<lambda>bs. bs \<noteq> []) pops))"
  proof (induction pops rule: rev_induct)
    case Nil
    then show ?case using c by (simp add: last_n_short)
  next
    case (snoc bs pops)
    then show ?case
      unfolding run_updates_snoc Environment_update_histories
      by (simp add: capped_run c)
  qed
  then show ?thesis
    by (simp add: histories_capped_def length_last_n)
qed

theorem histories_keep_last_1000_witness:
  "histories_capped full_history_environment
   \<and> populationHistory (statistics (fst (run_updates full_history_environment [[balanced]] (\<lambda>n. 1 / 2) 0)))
       = replicate 999 7 @ [1]
   \<and> at_size (averageTraits (statistics (fst (run_updates full_history_environment [[balanced]] (\<lambda>n. 1 / 2) 0))))
       = [5]
   \<and> histories_capped (fst (run_updates full_history_environment [[balanced]] (\<lambda>n. 1 / 2) 0))"
  using histories_keep_last_1000 [of full_history_environment "[[balanced]]" "\<lambda>n. 1 / 2" 0]
  by (simp add: full_history_environment_def neutral_environment_def empty_statistics_def
      histories_capped_def last_n_def average_def balanced_def)

section \<open>Extinction events\<close>

lemma constructor_histories:
  "statistics (fst (Environment_constructor opts rnd k)) = empty_statistics"
  "generation (fst (Environment_constructor opts rnd k)) = 0"
  by (simp_all add: Environment_constructor_def Let_def case_prod_beta)

text \<open>
  C1. The population sequence 50, 20 on a fresh environment logs no extinction event,
  although 50 exceeds 10 and 20 is at most half of 50: \<open>update\<close> reads the previous
  population from the history after \<open>updateStatistics\<close> has already appended the
  current one, so it compares the current population with itself.
\<close>

theorem extinction_never_logged:
  "extinctionEvents (statistics (fst (run_updates (fst (Environment_constructor opts rnd k0))
       [replicate 50 b, replicate 20 b] rnd k))) = []
   \<and> populationHistory (statistics (fst (run_updates (fst (Environment_constructor opts rnd k0))
       [replicate 50 b, replicate 20 b] rnd k))) = [50, 20]"
  by (simp add: case_prod_beta Environment_update_histories constructor_histories
      empty_statistics_def push_capped_def)

section \<open>Field sampling\<close>

lemma sample_left_of_grid:
  assumes "0 < cellWidth d" and "x < 0"
  shows "sample d x y = Inl TypeError"
proof -
  have "x / cellWidth d < 0" using assms by (simp add: divide_neg_pos)
  then have "\<lfloor>x / cellWidth d\<rfloor> < 0" by linarith
  then show ?thesis using assms by (simp add: sample_def grid_coordinate_def array_get_def)
qed

lemma constructor_cellWidth:
  "cellWidth (nutrientDistribution (fst (Environment_constructor opts rnd k)))
     = or_default (p_width opts) 800 / 20"
  "cellWidth (toxicityDistribution (fst (Environment_constructor opts rnd k)))
     = or_default (p_width opts) 800 / 20"
  by (simp_all add: Environment_constructor_def generateNutrientDistribution_def
      generateToxicityDistribution_def Let_def case_prod_beta)

text \<open>
  C2. On a default environment (800 by 600, cells 40 wide), sampling either field at
  \<open>x = -1\<close>, \<open>y = 0\<close> throws: the column index is \<open>Math.min(-1, 19) = -1\<close>, only the
  upper side is clamped, \<open>grid[-1]\<close> is \<open>undefined\<close>, and indexing it is a
  \<open>TypeError\<close>. A step of a running simulation that holds a bacterium at \<open>x = -1\<close>
  (where a child spawned next to the left edge can be) throws in the same way.
\<close>

theorem sampling_throws_left_of_grid:
  "getNutrientAt (fst (Environment_constructor no_options rnd k)) (- 1) 0 = Inl TypeError
   \<and> getToxicityAt (fst (Environment_constructor no_options rnd k)) (- 1) 0 = Inl TypeError
   \<and> Simulation_update (near_capacity\<lparr> bacteria := [balanced\<lparr> b_x := - 1 \<rparr>] \<rparr>) rnd k
       = Inl TypeError"
proof -
  define s1 where "s1 = near_capacity\<lparr> bacteria := [balanced\<lparr> b_x := - 1 \<rparr>],
      environment := fst (Environment_update (environment near_capacity)
                            [balanced\<lparr> b_x := - 1 \<rparr>] rnd k) \<rparr>"
  have "nutrientDistribution (environment s1) = nutrientDistribution neutral_environment"
    by (simp add: s1_def Environment_update_quiet near_capacity_def neutral_environment_def)
  then have "getNutrientAt (environment s1) (- 1) 100 = Inl TypeError"
    by (simp add: getNutrientAt_def sample_left_of_grid neutral_environment_def)
  then have "update_one s1 (balanced\<lparr> b_x := - 1 \<rparr>) rnd k' = Inl TypeError" for k'
    by (simp add: update_one_def local_environment_at_def balanced_def)
  then have "Simulation_update (near_capacity\<lparr> bacteria := [balanced\<lparr> b_x := - 1 \<rparr>] \<rparr>) rnd k
               = Inl TypeError"
    by (simp add: Simulation_update_def Let_def case_prod_beta s1_def near_capacity_def)
  then show ?thesis
    by (simp add: getNutrientAt_def getToxicityAt_def sample_left_of_grid constructor_cellWidth
        no_options_def)
qed

section \<open>Reset\<close>

lemma constructor_extent:
  "width (fst (Environment_constructor opts rnd k)) = or_default (p_width opts) 800"
  "height (fst (Environment_constructor opts rnd k)) = or_default (p_height opts) 600"
  by (simp_all add: Environment_constructor_def Let_def case_prod_beta)

lemma initializePopulation_environment:
  "environment (fst (initializePopulation s rnd k)) = environment s"
  by (simp add: initializePopulation_def case_prod_beta)

lemma constructor_scalars:
  "temperature (fst (Environment_constructor opts rnd k)) = defined_or (p_temperature opts) 50"
  "pH (fst (Environment_constructor opts rnd k)) = defined_or (p_pH opts) 7"
  "nutrients (fst (Environment_constructor opts rnd k)) = defined_or (p_nutrients opts) 5"
  "toxicity (fst (Environment_constructor opts rnd k)) = defined_or (p_toxicity opts) 0"
  "antibiotics (fst (Environment_constructor opts rnd k)) = defined_or (p_antibiotics opts) 0"
  by (simp_all add: Environment_constructor_def Let_def case_prod_beta)

text \<open>
  C3. A simulation whose environment is 1000 by 700 has an 800 by 600 environment
  after \<open>reset\<close>: \<open>currentParameters\<close> carries no width or height, so the constructor
  falls back to its defaults. The rest is as claimed: temperature, pH, nutrients,
  toxicity and antibiotics are kept, the statistics are empty, the generation is 0
  and the population has \<open>initialPopulation\<close> agents.
\<close>

theorem reset_forgets_extent:
  "let s0 = s\<lparr> environment := (environment s)\<lparr> width := 1000, height := 700 \<rparr> \<rparr>;
       s' = fst (reset s0 rnd k)
   in width (environment s0) = 1000 \<and> height (environment s0) = 700
    \<and> width (environment s') = 800 \<and> height (environment s') = 600
    \<and> temperature (environment s') = temperature (environment s)
    \<and> pH (environment s') = pH (environment s)
    \<and> nutrients (environment s') = nutrients (environment s)
    \<and> toxicity (environment s') = toxicity (environment s)
    \<and> antibiotics (environment s') = antibiotics (environment s)
    \<and> statistics (environment s') = empty_statistics
    \<and> generation (environment s') = 0
    \<and> length (bacteria s') = initialPopulation s"
  by (simp add: reset_def Let_def case_prod_beta initializePopulation_environment
      constructor_extent constructor_scalars constructor_histories currentParameters_def
      initializePopulation_def populate_length)

section \<open>setParameters\<close>

lemma generate_reads:
  "width e = width e' \<Longrightarrow> height e = height e' \<Longrightarrow> nutrients e = nutrients e'
     \<Longrightarrow> generateNutrientDistribution e rnd k = generateNutrientDistribution e' rnd k"
  "width e = width e' \<Longrightarrow> height e = height e' \<Longrightarrow> toxicity e = toxicity e'
     \<Longrightarrow> generateToxicityDistribution e rnd k = generateToxicityDistribution e' rnd k"
  by (simp_all add: generateNutrientDistribution_def generateToxicityDistribution_def)

lemma setParameters_scalars:
  "temperature (fst (setParameters e params rnd k)) = defined_or (p_temperature params) (temperature e)"
  "pH (fst (setParameters e params rnd k)) = defined_or (p_pH params) (pH e)"
  "nutrients (fst (setParameters e params rnd k)) = defined_or (p_nutrients params) (nutrients e)"
  "toxicity (fst (setParameters e params rnd k)) = defined_or (p_toxicity params) (toxicity e)"
  "antibiotics (fst (setParameters e params rnd k)) = defined_or (p_antibiotics params) (antibiotics e)"
  "carryingCapacity (fst (setParameters e params rnd k))
     = defined_or (p_carryingCapacity params) (carryingCapacity e)"
  "width (fst (setParameters e params rnd k)) = defined_or (p_width params) (width e)"
  "height (fst (setParameters e params rnd k)) = defined_or (p_height params) (height e)"
  by (simp_all add: setParameters_def Let_def case_prod_beta split: option.splits)

lemma setParameters_frame:
  "generation (fst (setParameters e params rnd k)) = generation e"
  "statistics (fst (setParameters e params rnd k)) = statistics e"
  by (simp_all add: setParameters_def Let_def case_prod_beta split: option.splits)

lemma generate_grid_first:
  "0 < n \<Longrightarrow> 0 < m \<Longrightarrow> hd (hd (fst (generate_grid cell n m rnd k))) = fst (cell rnd k)"
  by (cases n; cases m) (simp_all add: case_prod_beta)

text \<open>
  C5, as stated, fails: supplying the nutrient level the environment already has (5)
  changes neither the level nor the extent, yet the nutrient field is regenerated (its
  first cell goes from 5 to 3.75 under draws of 1/4).
\<close>

theorem same_level_regenerates_counterexample:
  "nutrients (fst (setParameters neutral_environment (no_options\<lparr> p_nutrients := Some 5 \<rparr>) (\<lambda>n. 1 / 4) 0))
     = nutrients neutral_environment
   \<and> width (fst (setParameters neutral_environment (no_options\<lparr> p_nutrients := Some 5 \<rparr>) (\<lambda>n. 1 / 4) 0))
     = width neutral_environment
   \<and> height (fst (setParameters neutral_environment (no_options\<lparr> p_nutrients := Some 5 \<rparr>) (\<lambda>n. 1 / 4) 0))
     = height neutral_environment
   \<and> hd (hd (grid (nutrientDistribution neutral_environment))) = 5
   \<and> hd (hd (grid (nutrientDistribution
        (fst (setParameters neutral_environment (no_options\<lparr> p_nutrients := Some 5 \<rparr>) (\<lambda>n. 1 / 4) 0)))))
     = 15 / 4"
proof -
  have "hd (hd (replicate 20 (replicate 20 (5::real)))) = 5"
    by (simp add: hd_replicate)
  then show ?thesis
    by (simp add: setParameters_def no_options_def neutral_environment_def Let_def case_prod_beta
        generateNutrientDistribution_def generate_grid_first nutrient_cell_def)
qed

text \<open>
  C5, amended. \<open>setParameters\<close> merges every supplied parameter into the current
  ones. For an update that leaves the extent as it is (it supplies no width and no
  height, or the current ones): the nutrient field is regenerated (from the merged
  parameters, at the current position of the tape) if and only if a nutrients value
  is supplied, whether or not it differs from the current one, and the toxicity field
  if and only if a toxicity value is supplied; an update of temperature, pH,
  antibiotics or carryingCapacity alone leaves both fields as they are and draws
  nothing.
\<close>

theorem setParameters_regenerates_when_supplied:
  "temperature (fst (setParameters e params rnd k)) = defined_or (p_temperature params) (temperature e)
   \<and> pH (fst (setParameters e params rnd k)) = defined_or (p_pH params) (pH e)
   \<and> nutrients (fst (setParameters e params rnd k)) = defined_or (p_nutrients params) (nutrients e)
   \<and> toxicity (fst (setParameters e params rnd k)) = defined_or (p_toxicity params) (toxicity e)
   \<and> antibiotics (fst (setParameters e params rnd k)) = defined_or (p_antibiotics params) (antibiotics e)
   \<and> carryingCapacity (fst (setParameters e params rnd k))
       = defined_or (p_carryingCapacity params) (carryingCapacity e)
   \<and> width (fst (setParameters e params rnd k)) = defined_or (p_width params) (width e)
   \<and> height (fst (setParameters e params rnd k)) = defined_or (p_height params) (height e)
   \<and> (defined_or (p_width params) (width e) = width e
        \<and> defined_or (p_height params) (height e) = height e \<longrightarrow>
        (let e' = fst (setParameters e params rnd k);
             k' = snd (setParameters e params rnd k);
             k1 = (if p_nutrients params = None then k
                   else snd (generateNutrientDistribution e' rnd k))
         in (p_nutrients params \<noteq> None
               \<longrightarrow> nutrientDistribution e' = fst (generateNutrientDistribution e' rnd k))
          \<and> (p_nutrients params = None
               \<longrightarrow> nutrientDistribution e' = nutrientDistribution e)
          \<and> (p_toxicity params \<noteq> None
               \<longrightarrow> toxicityDistribution e' = fst (generateToxicityDistribution e' rnd k1)
                   \<and> k' = snd (generateToxicityDistribution e' rnd k1))
          \<and> (p_toxicity params = None
               \<longrightarrow> toxicityDistribution e' = toxicityDistribution e \<and> k' = k1)))"
proof -
  have regen: "defined_or (p_width params) (width e) = width e
        \<and> defined_or (p_height params) (height e) = height e \<longrightarrow>
        (let e' = fst (setParameters e params rnd k);
             k' = snd (setParameters e params rnd k);
             k1 = (if p_nutrients params = None then k
                   else snd (generateNutrientDistribution e' rnd k))
         in (p_nutrients params \<noteq> None
               \<longrightarrow> nutrientDistribution e' = fst (generateNutrientDistribution e' rnd k))
          \<and> (p_nutrients params = None
               \<longrightarrow> nutrientDistribution e' = nutrientDistribution e)
          \<and> (p_toxicity params \<noteq> None
               \<longrightarrow> toxicityDistribution e' = fst (generateToxicityDistribution e' rnd k1)
                   \<and> k' = snd (generateToxicityDistribution e' rnd k1))
          \<and> (p_toxicity params = None
               \<longrightarrow> toxicityDistribution e' = toxicityDistribution e \<and> k' = k1))"
  proof (intro impI)
    assume "defined_or (p_width params) (width e) = width e
        \<and> defined_or (p_height params) (height e) = height e"
    then show "let e' = fst (setParameters e params rnd k);
             k' = snd (setParameters e params rnd k);
             k1 = (if p_nutrients params = None then k
                   else snd (generateNutrientDistribution e' rnd k))
         in (p_nutrients params \<noteq> None
               \<longrightarrow> nutrientDistribution e' = fst (generateNutrientDistribution e' rnd k))
          \<and> (p_nutrients params = None
               \<longrightarrow> nutrientDistribution e' = nutrientDistribution e)
          \<and> (p_toxicity params \<noteq> None
               \<longrightarrow> toxicityDistribution e' = fst (generateToxicityDistribution e' rnd k1)
                   \<and> k' = snd (generateToxicityDistribution e' rnd k1))
          \<and> (p_toxicity params = None
               \<longrightarrow> toxicityDistribution e' = toxicityDistribution e \<and> k' = k1)"
      by (cases "p_nutrients params"; cases "p_toxicity params";
          cases "p_temperature params"; cases "p_pH params";
          cases "p_antibiotics params"; cases "p_carryingCapacity params";
          cases "p_width params"; cases "p_height params")
        (simp_all add: setParameters_def Let_def case_prod_beta
          generateNutrientDistribution_def generateToxicityDistribution_def)
  qed
  show ?thesis
    by (intro conjI setParameters_scalars regen)
qed

theorem setParameters_regenerates_when_supplied_witness:
  "p_width (no_options\<lparr> p_nutrients := Some 8 \<rparr>) = None
   \<and> p_height (no_options\<lparr> p_nutrients := Some 8 \<rparr>) = None
   \<and> p_nutrients (no_options\<lparr> p_nutrients := Some 8 \<rparr>) \<noteq> None
   \<and> p_toxicity (no_options\<lparr> p_nutrients := Some 8 \<rparr>) = None
   \<and> nutrients (fst (setParameters neutral_environment (no_options\<lparr> p_nutrients := Some 8 \<rparr>) (\<lambda>n. 1 / 4) 0)) = 8
   \<and> hd (hd (grid (nutrientDistribution
        (fst (setParameters neutral_environment (no_options\<lparr> p_nutrients := Some 8 \<rparr>) (\<lambda>n. 1 / 4) 0)))))
       = 6
   \<and> toxicityDistribution
        (fst (setParameters neutral_environment (no_options\<lparr> p_nutrients := Some 8 \<rparr>) (\<lambda>n. 1 / 4) 0))
       = toxicityDistribution neutral_environment
   \<and> p_toxicity (no_options\<lparr> p_toxicity := Some (1 / 2) \<rparr>) \<noteq> None
   \<and> p_nutrients (no_options\<lparr> p_toxicity := Some (1 / 2) \<rparr>) = None
   \<and> toxicity (fst (setParameters neutral_environment (no_options\<lparr> p_toxicity := Some (1 / 2) \<rparr>) (\<lambda>n. 1 / 4) 0))
       = 1 / 2
   \<and> hd (hd (grid (toxicityDistribution
        (fst (setParameters neutral_environment (no_options\<lparr> p_toxicity := Some (1 / 2) \<rparr>) (\<lambda>n. 1 / 4) 0)))))
       = 3 / 8
   \<and> nutrientDistribution
        (fst (setParameters neutral_environment (no_options\<lparr> p_toxicity := Some (1 / 2) \<rparr>) (\<lambda>n. 1 / 4) 0))
       = nutrientDistribution neutral_environment
   \<and> nutrientDistribution
        (fst (setParameters neutral_environment (no_options\<lparr> p_temperature := Some 80 \<rparr>) (\<lambda>n. 1 / 4) 0))
       = nutrientDistribution neutral_environment
   \<and> toxicityDistribution
        (fst (setParameters neutral_environment (no_options\<lparr> p_temperature := Some 80 \<rparr>) (\<lambda>n. 1 / 4) 0))
       = toxicityDistribution neutral_environment
   \<and> temperature (fst (setParameters neutral_environment (no_options\<lparr> p_temperature := Some 80 \<rparr>) (\<lambda>n. 1 / 4) 0))
       = 80
   \<and> snd (setParameters neutral_environment (no_options\<lparr> p_temperature := Some 80 \<rparr>) (\<lambda>n. 1 / 4) 0) = 0
   \<and> defined_or (p_width (no_options\<lparr> p_width := Some 800, p_height := Some 600, p_nutrients := Some 8 \<rparr>))
         (width neutral_environment) = width neutral_environment
   \<and> defined_or (p_height (no_options\<lparr> p_width := Some 800, p_height := Some 600, p_nutrients := Some 8 \<rparr>))
         (height neutral_environment) = height neutral_environment
   \<and> hd (hd (grid (nutrientDistribution
        (fst (setParameters neutral_environment
               (no_options\<lparr> p_width := Some 800, p_height := Some 600, p_nutrients := Some 8 \<rparr>)
               (\<lambda>n. 1 / 4) 0))))) = 6
   \<and> toxicityDistribution
        (fst (setParameters neutral_environment
               (no_options\<lparr> p_width := Some 800, p_height := Some 600, p_nutrients := Some 8 \<rparr>)
               (\<lambda>n. 1 / 4) 0))
       = toxicityDistribution neutral_environment"
  using setParameters_regenerates_when_supplied
      [of neutral_environment
        "no_options\<lparr> p_width := Some 800, p_height := Some 600, p_nutrients := Some 8 \<rparr>"
        "\<lambda>n. 1 / 4" 0]
    setParameters_regenerates_when_supplied
      [of neutral_environment "no_options\<lparr> p_nutrients := Some 8 \<rparr>" "\<lambda>n. 1 / 4" 0]
    setParameters_regenerates_when_supplied
      [of neutral_environment "no_options\<lparr> p_toxicity := Some (1 / 2) \<rparr>" "\<lambda>n. 1 / 4" 0]
    setParameters_regenerates_when_supplied
      [of neutral_environment "no_options\<lparr> p_temperature := Some 80 \<rparr>" "\<lambda>n. 1 / 4" 0]
  by (simp add: no_options_def Let_def generateNutrientDistribution_def
      generateToxicityDistribution_def case_prod_beta generate_grid_first nutrient_cell_def
      toxicity_cell_def neutral_environment_def)

section \<open>The step of the simulation\<close>

lemma update_loop_accumulator:
  "update_loop s bs acc rnd k =
     (case update_loop s bs [] rnd k of
        Inl err \<Rightarrow> Inl err
      | Inr (new, k') \<Rightarrow> Inr (acc @ new, k'))"
proof (induction bs arbitrary: acc k)
  case Nil
  show ?case by simp
next
  case (Cons b bs)
  show ?case
  proof (cases "update_one s b rnd k")
    case (Inl err)
    then show ?thesis by simp
  next
    case (Inr r)
    obtain pushed k1 where r: "r = (pushed, k1)" by (cases r)
    show ?thesis
      using Cons.IH [of "acc @ pushed" k1] Cons.IH [of pushed k1] Inr r
      by (simp split: sum.splits prod.splits)
  qed
qed

lemma update_one_closed_gate:
  assumes "\<not> real (length (bacteria s)) < carryingCapacity (environment s)"
    and "update_one s b rnd k = Inr (pushed, k')"
  shows "length pushed \<le> 1"
  using assms
  by (auto simp: update_one_def Let_def case_prod_beta split: sum.splits if_splits)

lemma update_one_open_gate:
  assumes "real (length (bacteria s)) < carryingCapacity (environment s)"
    and "local_environment_at s b = Inr le"
    and "Bacterium_update b le rnd k = (b1, True, k1)"
  shows "update_one s b rnd k =
           Inr (fst (reproduce b1 le rnd k1)
                  # (case fst (snd (reproduce b1 le rnd k1)) of None \<Rightarrow> [] | Some c \<Rightarrow> [c]),
                snd (snd (reproduce b1 le rnd k1)))"
  using assms
  by (simp add: update_one_def Let_def case_prod_beta split: option.splits)

lemma update_loop_closed_gate:
  assumes "\<not> real (length (bacteria s)) < carryingCapacity (environment s)"
  shows "update_loop s bs acc rnd k = Inr (new, k') \<Longrightarrow> length new \<le> length acc + length bs"
proof (induction bs arbitrary: acc k)
  case Nil
  then show ?case by simp
next
  case (Cons b bs)
  from Cons.prems obtain pushed k1 where
    one: "update_one s b rnd k = Inr (pushed, k1)"
    and rest: "update_loop s bs (acc @ pushed) rnd k1 = Inr (new, k')"
    by (auto split: sum.splits)
  have "length pushed \<le> 1" using update_one_closed_gate [OF assms one] .
  then show ?case using Cons.IH [OF rest] by simp
qed

text \<open>
  C4, amended. Within one step the gate for reproduction is the same for every agent:
  a surviving agent attempts reproduction if and only if the size of the collection at
  the start of the step is below \<open>carryingCapacity\<close>. What has been retained or
  spawned so far in the pass plays no role (the loop's result is the accumulator
  followed by what the loop appends from an empty one), so no agent has an advantage
  from its place in the order; and under a closed gate a step never increases the
  population.
\<close>

theorem gate_is_start_of_step_population:
  "update_loop s bs acc rnd k =
     (case update_loop s bs [] rnd k of
        Inl err \<Rightarrow> Inl err
      | Inr (new, k') \<Rightarrow> Inr (acc @ new, k'))
   \<and> (real (length (bacteria s)) < carryingCapacity (environment s)
        \<and> local_environment_at s b = Inr le
        \<and> Bacterium_update b le rnd k = (b1, True, k1) \<longrightarrow>
        update_one s b rnd k =
          Inr (fst (reproduce b1 le rnd k1)
                 # (case fst (snd (reproduce b1 le rnd k1)) of None \<Rightarrow> [] | Some c \<Rightarrow> [c]),
               snd (snd (reproduce b1 le rnd k1))))
   \<and> (\<not> real (length (bacteria s)) < carryingCapacity (environment s)
        \<and> local_environment_at s b = Inr le
        \<and> Bacterium_update b le rnd k = (b1, True, k1) \<longrightarrow>
        update_one s b rnd k = Inr ([b1], k1))
   \<and> (running s
        \<and> \<not> real (length (bacteria s)) < carryingCapacity (environment s) \<longrightarrow>
        (case Simulation_update s rnd k of
           Inl err \<Rightarrow> True
         | Inr (s', k') \<Rightarrow> length (bacteria s') \<le> length (bacteria s)))"
proof (intro conjI impI)
  show "update_loop s bs acc rnd k =
     (case update_loop s bs [] rnd k of
        Inl err \<Rightarrow> Inl err
      | Inr (new, k') \<Rightarrow> Inr (acc @ new, k'))"
    by (rule update_loop_accumulator)
next
  assume "real (length (bacteria s)) < carryingCapacity (environment s)
        \<and> local_environment_at s b = Inr le
        \<and> Bacterium_update b le rnd k = (b1, True, k1)"
  then show "update_one s b rnd k =
          Inr (fst (reproduce b1 le rnd k1)
                 # (case fst (snd (reproduce b1 le rnd k1)) of None \<Rightarrow> [] | Some c \<Rightarrow> [c]),
               snd (snd (reproduce b1 le rnd k1)))"
    using update_one_open_gate by blast
next
  assume "\<not> real (length (bacteria s)) < carryingCapacity (environment s)
        \<and> local_environment_at s b = Inr le
        \<and> Bacterium_update b le rnd k = (b1, True, k1)"
  then show "update_one s b rnd k = Inr ([b1], k1)"
    by (simp add: update_one_def)
next
  assume a: "running s
        \<and> \<not> real (length (bacteria s)) < carryingCapacity (environment s)"
  define s1 where "s1 = s\<lparr> environment := fst (Environment_update (environment s) (bacteria s) rnd k) \<rparr>"
  define k1 where "k1 = snd (Environment_update (environment s) (bacteria s) rnd k)"
  have closed: "\<not> real (length (bacteria s1)) < carryingCapacity (environment s1)"
    using a by (simp add: s1_def Environment_update_scalars)
  have run: "Simulation_update s rnd k =
      (case update_loop s1 (bacteria s1) [] rnd k1 of
         Inl err \<Rightarrow> Inl err
       | Inr (new, k2) \<Rightarrow> Inr (s1\<lparr> bacteria := new \<rparr>, k2))"
    using a unfolding s1_def k1_def
    by (simp add: Simulation_update_def Let_def case_prod_beta)
  show "case Simulation_update s rnd k of
           Inl err \<Rightarrow> True
         | Inr (s', k') \<Rightarrow> length (bacteria s') \<le> length (bacteria s)"
  proof (cases "update_loop s1 (bacteria s1) [] rnd k1")
    case (Inl err)
    then show ?thesis by (simp add: run)
  next
    case (Inr r)
    obtain new k2 where r: "r = (new, k2)" by (cases r)
    have "length new \<le> length (bacteria s1)"
      using update_loop_closed_gate [OF closed, of "bacteria s1" "[]" rnd k1 new k2] Inr r by simp
    then show ?thesis unfolding run Inr r by (simp add: s1_def)
  qed
qed


lemma sample_neutral:
  "x = 100 \<or> x = 300 \<or> x = 500 \<Longrightarrow>
     sample \<lparr> grid = replicate 20 (replicate 20 v), cellWidth = 40, cellHeight = 30, gridSize = 20 \<rparr>
       x 100 = Inr (Some v)"
  by (auto simp: sample_def grid_coordinate_def array_get_def)


lemma local_environment_neutral:
  assumes "samples_as_neutral s" and "x = 100 \<or> x = 300 \<or> x = 500"
  shows "local_environment_at s (balanced\<lparr> b_x := x \<rparr>) = Inr neutral_local"
proof -
  have xy: "b_x (balanced\<lparr> b_x := x \<rparr>) = x" "b_y (balanced\<lparr> b_x := x \<rparr>) = 100"
    by (simp_all add: balanced_def)
  have f: "nutrientDistribution (environment s) = nutrientDistribution neutral_environment"
    "toxicityDistribution (environment s) = toxicityDistribution neutral_environment"
    "width (environment s) = 800" "height (environment s) = 600"
    "temperature (environment s) = 50" "pH (environment s) = 7"
    using assms(1) by (simp_all add: samples_as_neutral_def)
  show ?thesis
    unfolding local_environment_at_def getNutrientAt_def getToxicityAt_def f xy
    by (simp add: neutral_environment_def sample_neutral [OF assms(2)] neutral_local_def)
qed

lemma samples_as_neutral_after_update:
  assumes "samples_as_neutral s" and "generation (environment s) = 0"
  shows "samples_as_neutral (s\<lparr> environment := fst (Environment_update (environment s) bs rnd k) \<rparr>)"
  using assms
  by (simp add: samples_as_neutral_def Environment_update_scalars Environment_update_quiet)

lemma balanced_step:
  assumes "0 \<le> x" and "x \<le> 800"
  shows "Bacterium_update (balanced\<lparr> b_x := x \<rparr>) neutral_local (\<lambda>n. 1 / 2) k
     = (balanced\<lparr> b_x := x, b_age := 1, b_energy := Num (215 / 2) \<rparr>, True, Suc k)"
  using assms
  by (simp add: Bacterium_update_def balanced_def neutral_local_def Let_def move_def
      calculateTemperatureFactor_def calculatePHFactor_def calculateToxicityFactor_def
      absorbNutrients_def)

lemma balanced_reproduce:
  "\<exists>c. reproduce (balanced\<lparr> b_x := x, b_age := 1, b_energy := Num (215 / 2) \<rparr>)
            neutral_local (\<lambda>n. 1 / 2) k
          = (balanced\<lparr> b_x := x, b_age := 1, b_energy := Num (301 / 4),
                       b_reproductionCooldown := 20 \<rparr>, Some c, k + 11)
        \<and> b_age c = 0"
  by (simp add: reproduce_def balanced_def Let_def mutateProperty_def Bacterium_constructor_def)


lemma neutral_step_open:
  assumes "samples_as_neutral s"
    and "real (length (bacteria s)) < carryingCapacity (environment s)"
    and "x = 100 \<or> x = 300 \<or> x = 500"
  shows "\<exists>p c. update_one s (balanced\<lparr> b_x := x \<rparr>) (\<lambda>n. 1 / 2) k = Inr ([p, c], k + 12)
           \<and> b_age p = 1 \<and> b_age c = 0"
proof -
  have x: "0 \<le> x" "x \<le> 800" using assms(3) by auto
  obtain c where c: "reproduce (balanced\<lparr> b_x := x, b_age := 1, b_energy := Num (215 / 2) \<rparr>)
            neutral_local (\<lambda>n. 1 / 2) (Suc k)
          = (balanced\<lparr> b_x := x, b_age := 1, b_energy := Num (301 / 4),
                       b_reproductionCooldown := 20 \<rparr>, Some c, Suc k + 11)" and "b_age c = 0"
    using balanced_reproduce [of x "Suc k"] by blast
  show ?thesis
    using update_one_open_gate [OF assms(2) local_environment_neutral [OF assms(1,3)]
        balanced_step [OF x, of k]] c \<open>b_age c = 0\<close>
    by (simp add: balanced_def)
qed

lemma neutral_step_closed:
  assumes "samples_as_neutral s"
    and "\<not> real (length (bacteria s)) < carryingCapacity (environment s)"
    and "x = 100 \<or> x = 300 \<or> x = 500"
  shows "update_one s (balanced\<lparr> b_x := x \<rparr>) (\<lambda>n. 1 / 2) k
           = Inr ([balanced\<lparr> b_x := x, b_age := 1, b_energy := Num (215 / 2) \<rparr>], Suc k)"
proof -
  have x: "0 \<le> x" "x \<le> 800" using assms(3) by auto
  show ?thesis
    using assms(2) local_environment_neutral [OF assms(1,3)] balanced_step [OF x, of k]
    by (simp add: update_one_def)
qed

lemma balanced_at_100: "balanced = balanced\<lparr> b_x := 100 \<rparr>"
  by (simp add: balanced_def)

lemma near_capacity_stepped:
  "samples_as_neutral (near_capacity\<lparr> environment :=
       fst (Environment_update (environment near_capacity) bs rnd k) \<rparr>)"
  "samples_as_neutral (at_capacity\<lparr> environment :=
       fst (Environment_update (environment at_capacity) bs rnd k) \<rparr>)"
  "samples_as_neutral near_capacity" "samples_as_neutral at_capacity"
  by (simp_all add: samples_as_neutral_def Environment_update_scalars Environment_update_quiet
      near_capacity_def at_capacity_def neutral_environment_def)

text \<open>
  C4, as stated, fails. Three balanced bacteria under a carrying capacity of 4, every
  draw 1/2: after the first two agents the pass has retained and spawned four, which
  is not below the capacity, yet the third agent reproduces as well; the step ends
  with six bacteria, each parent (age 1) followed by its child (age 0).
\<close>

theorem cumulative_gate_counterexample:
  "carryingCapacity (environment near_capacity) = 4
   \<and> length (bacteria near_capacity) = 3
   \<and> (case Simulation_update near_capacity (\<lambda>n. 1 / 2) 0 of
         Inl err \<Rightarrow> None
       | Inr (s', k') \<Rightarrow> Some (map b_age (bacteria s'))) = Some [1, 0, 1, 0, 1, 0]"
proof -
  define s1 where "s1 = near_capacity\<lparr> environment :=
       fst (Environment_update (environment near_capacity) (bacteria near_capacity) (\<lambda>n. 1 / 2) 0) \<rparr>"
  have n: "samples_as_neutral s1"
    unfolding s1_def by (rule near_capacity_stepped)
  have k1: "snd (Environment_update (environment near_capacity) (bacteria near_capacity) (\<lambda>n. 1 / 2) 0) = 0"
    by (simp add: Environment_update_quiet near_capacity_def neutral_environment_def)
  have bs: "bacteria s1 = [balanced\<lparr> b_x := 100 \<rparr>, balanced\<lparr> b_x := 300 \<rparr>, balanced\<lparr> b_x := 500 \<rparr>]"
    unfolding s1_def by (simp add: near_capacity_def) (rule balanced_at_100)
  have gate: "real (length (bacteria s1)) < carryingCapacity (environment s1)"
    unfolding bs by (simp add: s1_def Environment_update_scalars near_capacity_def)
  obtain p1 c1 where u1: "update_one s1 (balanced\<lparr> b_x := 100 \<rparr>) (\<lambda>n. 1 / 2) 0 = Inr ([p1, c1], 12)"
    and a1: "b_age p1 = 1" "b_age c1 = 0"
    using neutral_step_open [OF n gate, of 100 0] by auto
  obtain p2 c2 where u2: "update_one s1 (balanced\<lparr> b_x := 300 \<rparr>) (\<lambda>n. 1 / 2) 12 = Inr ([p2, c2], 24)"
    and a2: "b_age p2 = 1" "b_age c2 = 0"
    using neutral_step_open [OF n gate, of 300 12] by auto
  obtain p3 c3 where u3: "update_one s1 (balanced\<lparr> b_x := 500 \<rparr>) (\<lambda>n. 1 / 2) 24 = Inr ([p3, c3], 36)"
    and a3: "b_age p3 = 1" "b_age c3 = 0"
    using neutral_step_open [OF n gate, of 500 24] by auto
  have loop: "update_loop s1 (bacteria s1) [] (\<lambda>n. 1 / 2) 0 = Inr ([p1, c1, p2, c2, p3, c3], 36)"
    unfolding bs by (simp add: u1 u2 u3)
  have run: "Simulation_update near_capacity (\<lambda>n. 1 / 2) 0
               = Inr (s1\<lparr> bacteria := [p1, c1, p2, c2, p3, c3] \<rparr>, 36)"
    using loop k1 unfolding s1_def
    by (simp add: Simulation_update_def Let_def case_prod_beta near_capacity_def)
  show ?thesis
    unfolding run by (simp add: a1 a2 a3 near_capacity_def)
qed


theorem gate_is_start_of_step_population_witness:
  "real (length (bacteria near_capacity)) < carryingCapacity (environment near_capacity)
   \<and> local_environment_at near_capacity balanced = Inr neutral_local
   \<and> Bacterium_update balanced neutral_local (\<lambda>n. 1 / 2) 0
       = (balanced\<lparr> b_age := 1, b_energy := Num (215 / 2) \<rparr>, True, 1)
   \<and> (case update_one near_capacity balanced (\<lambda>n. 1 / 2) 0 of
         Inl err \<Rightarrow> None
       | Inr (pushed, k') \<Rightarrow> Some (map b_age pushed, k')) = Some ([1, 0], 12)
   \<and> \<not> real (length (bacteria at_capacity)) < carryingCapacity (environment at_capacity)
   \<and> running at_capacity
   \<and> local_environment_at at_capacity balanced = Inr neutral_local
   \<and> update_one at_capacity balanced (\<lambda>n. 1 / 2) 0
       = Inr ([balanced\<lparr> b_age := 1, b_energy := Num (215 / 2) \<rparr>], 1)
   \<and> (case Simulation_update at_capacity (\<lambda>n. 1 / 2) 0 of
         Inl err \<Rightarrow> None
       | Inr (s', k') \<Rightarrow> Some (map b_age (bacteria s'))) = Some [1, 1, 1]"
proof -
  let ?aged = "balanced\<lparr> b_age := 1, b_energy := Num (215 / 2) \<rparr>"
  have b1: "balanced\<lparr> b_x := 100, b_age := 1, b_energy := Num (215 / 2) \<rparr> = ?aged"
    by (simp add: balanced_def)
  have opened: "real (length (bacteria near_capacity)) < carryingCapacity (environment near_capacity)"
    by (simp add: near_capacity_def)
  have closed: "\<not> real (length (bacteria at_capacity)) < carryingCapacity (environment at_capacity)"
    by (simp add: at_capacity_def near_capacity_def)
  have running: "running at_capacity"
    by (simp add: at_capacity_def near_capacity_def)
  have le1: "local_environment_at near_capacity balanced = Inr neutral_local"
    using local_environment_neutral [OF near_capacity_stepped(3), of 100]
    by (simp add: balanced_at_100 [symmetric])
  have le2: "local_environment_at at_capacity balanced = Inr neutral_local"
    using local_environment_neutral [OF near_capacity_stepped(4), of 100]
    by (simp add: balanced_at_100 [symmetric])
  have step: "Bacterium_update balanced neutral_local (\<lambda>n. 1 / 2) 0 = (?aged, True, 1)"
    using balanced_step [of 100 0] unfolding b1 by (simp add: balanced_at_100 [symmetric])
  obtain c where c: "reproduce ?aged neutral_local (\<lambda>n. 1 / 2) 1
          = (balanced\<lparr> b_x := 100, b_age := 1, b_energy := Num (301 / 4),
                       b_reproductionCooldown := 20 \<rparr>, Some c, 12)" and "b_age c = 0"
    using balanced_reproduce [of 100 1] unfolding b1 by auto
  have one_open: "update_one near_capacity balanced (\<lambda>n. 1 / 2) 0 =
          Inr (fst (reproduce ?aged neutral_local (\<lambda>n. 1 / 2) 1)
                 # (case fst (snd (reproduce ?aged neutral_local (\<lambda>n. 1 / 2) 1)) of
                      None \<Rightarrow> [] | Some c \<Rightarrow> [c]),
               snd (snd (reproduce ?aged neutral_local (\<lambda>n. 1 / 2) 1)))"
    using gate_is_start_of_step_population
        [where s = near_capacity and b = balanced and le = neutral_local and ?b1.0 = ?aged
          and rnd = "\<lambda>n. 1 / 2" and k = 0 and ?k1.0 = 1] opened le1 step
    by blast
  have one_closed: "update_one at_capacity balanced (\<lambda>n. 1 / 2) 0 = Inr ([?aged], 1)"
    using gate_is_start_of_step_population
        [where s = at_capacity and b = balanced and le = neutral_local and ?b1.0 = ?aged
          and rnd = "\<lambda>n. 1 / 2" and k = 0 and ?k1.0 = 1] closed le2 step
    by blast
  define s1 where "s1 = at_capacity\<lparr> environment :=
       fst (Environment_update (environment at_capacity) (bacteria at_capacity) (\<lambda>n. 1 / 2) 0) \<rparr>"
  have n: "samples_as_neutral s1"
    unfolding s1_def by (rule near_capacity_stepped)
  have k1: "snd (Environment_update (environment at_capacity) (bacteria at_capacity) (\<lambda>n. 1 / 2) 0) = 0"
    by (simp add: Environment_update_quiet at_capacity_def neutral_environment_def)
  have bs: "bacteria s1 = [balanced\<lparr> b_x := 100 \<rparr>, balanced\<lparr> b_x := 300 \<rparr>, balanced\<lparr> b_x := 500 \<rparr>]"
    unfolding s1_def by (simp add: at_capacity_def near_capacity_def) (rule balanced_at_100)
  have gate: "\<not> real (length (bacteria s1)) < carryingCapacity (environment s1)"
    unfolding bs by (simp add: s1_def Environment_update_scalars at_capacity_def)
  have loop: "update_loop s1 (bacteria s1) [] (\<lambda>n. 1 / 2) 0 =
      Inr ([balanced\<lparr> b_x := 100, b_age := 1, b_energy := Num (215 / 2) \<rparr>,
            balanced\<lparr> b_x := 300, b_age := 1, b_energy := Num (215 / 2) \<rparr>,
            balanced\<lparr> b_x := 500, b_age := 1, b_energy := Num (215 / 2) \<rparr>], 3)"
    unfolding bs
    by (simp add: neutral_step_closed [OF n gate] numeral_3_eq_3)
  have run: "Simulation_update at_capacity (\<lambda>n. 1 / 2) 0
               = Inr (s1\<lparr> bacteria :=
                     [balanced\<lparr> b_x := 100, b_age := 1, b_energy := Num (215 / 2) \<rparr>,
                      balanced\<lparr> b_x := 300, b_age := 1, b_energy := Num (215 / 2) \<rparr>,
                      balanced\<lparr> b_x := 500, b_age := 1, b_energy := Num (215 / 2) \<rparr>] \<rparr>, 3)"
    using loop k1 running unfolding s1_def
    by (simp add: Simulation_update_def Let_def case_prod_beta at_capacity_def)
  show ?thesis
    unfolding run one_open one_closed c
    using opened closed running le1 le2 step \<open>b_age c = 0\<close>
    by simp
qed

end
